theory Spec2Isabelle
  imports Main "HOL-Library.Char_ord" "HOL-Library.List_Lexorder"
begin

section \<open>Bytes, failures and machine integers\<close>

text \<open>
  The file image is a \<^verbatim>\<open>std::vector<unsigned char>\<close>, edit buffers and section names are
  \<^verbatim>\<open>std::string\<close>s. Both are lists of bytes; a byte is a HOL \<^typ>\<open>char\<close> (eight bits), so
  that section names can be written as string literals. The order on strings is the
  bytewise lexicographic one, which is the order \<^verbatim>\<open>std::map<std::string, _>\<close> iterates in.

  The model is that of an LP64 little-endian host: \<^verbatim>\<open>size_t\<close>, \<^verbatim>\<open>uint64_t\<close> and \<^verbatim>\<open>off_t\<close>
  have 64 bits, \<^verbatim>\<open>unsigned int\<close> and \<^verbatim>\<open>int\<close> have 32. Unsigned arithmetic wraps around and is
  written with \<open>mod\<close>; \<^verbatim>\<open>off_t\<close> values are kept as their 64-bit two's complement pattern.
\<close>

type_synonym bytes = "char list"

datatype error =
    Error string
  | OutOfRange
  | LengthError
  | AssertionFailed string
  | UndefinedBehaviour string

text \<open>
  \<open>Error msg\<close> is the exception raised by \<^verbatim>\<open>error(msg)\<close>; \<open>OutOfRange\<close> is the
  \<^verbatim>\<open>std::out_of_range\<close> of \<^verbatim>\<open>vector::at\<close> and \<^verbatim>\<open>map::at\<close>; \<open>LengthError\<close> is the exception of a
  \<^verbatim>\<open>resize\<close> beyond \<^verbatim>\<open>max_size()\<close>; \<open>AssertionFailed\<close> is a failed \<^verbatim>\<open>assert\<close>;
  \<open>UndefinedBehaviour\<close> marks an execution that leaves defined C++ (a read or write
  outside the buffer, a division by zero, \<^verbatim>\<open>back()\<close> on an empty vector, signed overflow).
\<close>

datatype warning =
    SymbolRefersToNonExistentSection nat
  | RldMapSectionMissing

definition bindE :: "error + 'a \<Rightarrow> ('a \<Rightarrow> error + 'b) \<Rightarrow> error + 'b" where
  "bindE m f = (case m of Inl e \<Rightarrow> Inl e | Inr x \<Rightarrow> f x)"

lemma bindE_Inl [simp]: "bindE (Inl e) f = Inl e"
  by (simp add: bindE_def)

lemma bindE_Inr [simp]: "bindE (Inr x) f = f x"
  by (simp add: bindE_def)

lemma bindE_cong [fundef_cong]:
  "m = m' \<Longrightarrow> (\<And>x. m' = Inr x \<Longrightarrow> f x = f' x) \<Longrightarrow> bindE m f = bindE m' f'"
  by (cases m') (simp_all add: bindE_def)

lemma bindE_eq_Inr: "bindE m f = Inr y \<longleftrightarrow> (\<exists>x. m = Inr x \<and> f x = Inr y)"
  by (cases m) simp_all

definition assertE :: "bool \<Rightarrow> string \<Rightarrow> error + unit" where
  "assertE b msg = (if b then Inr () else Inl (AssertionFailed msg))"

fun foldE :: "('a \<Rightarrow> 's \<Rightarrow> error + 's) \<Rightarrow> 'a list \<Rightarrow> 's \<Rightarrow> error + 's" where
  "foldE f [] s = Inr s"
| "foldE f (x # xs) s = bindE (f x s) (foldE f xs)"

definition vec_at :: "'a list \<Rightarrow> nat \<Rightarrow> error + 'a" where
  "vec_at xs i = (if i < length xs then Inr (xs ! i) else Inl OutOfRange)"

definition vec_index :: "'a list \<Rightarrow> nat \<Rightarrow> error + 'a" where
  "vec_index xs i =
     (if i < length xs then Inr (xs ! i)
      else Inl (UndefinedBehaviour ''vector index out of range''))"

definition vec_resize :: "'a list \<Rightarrow> nat \<Rightarrow> 'a \<Rightarrow> 'a list" where
  "vec_resize xs n d = take n xs @ replicate (n - length xs) d"

definition u16 :: "nat \<Rightarrow> nat" where "u16 x = x mod 2 ^ 16"
definition u32 :: "nat \<Rightarrow> nat" where "u32 x = x mod 2 ^ 32"
definition u64 :: "nat \<Rightarrow> nat" where "u64 x = x mod 2 ^ 64"

definition usub :: "nat \<Rightarrow> nat \<Rightarrow> nat \<Rightarrow> nat" where
  "usub bits a b = (a mod 2 ^ bits + 2 ^ bits - b mod 2 ^ bits) mod 2 ^ bits"

definition s64 :: "nat \<Rightarrow> int" where
  "s64 x = (if x mod 2 ^ 64 < 2 ^ 63 then int (x mod 2 ^ 64) else int (x mod 2 ^ 64) - 2 ^ 64)"

text \<open>
  \<open>le_decode\<close> is the value a little-endian host sees in a field whose bytes in memory
  are the list; \<open>le_encode n v\<close> are the \<open>n\<close> bytes of the value \<open>v\<close> in memory.
\<close>

fun le_decode :: "bytes \<Rightarrow> nat" where
  "le_decode [] = 0"
| "le_decode (b # bs) = of_char b + 256 * le_decode bs"

fun le_encode :: "nat \<Rightarrow> nat \<Rightarrow> bytes" where
  "le_encode 0 v = []"
| "le_encode (Suc n) v = char_of (v mod 256) # le_encode n (v div 256)"

text \<open>
  \<^verbatim>\<open>rdi(i, littleEndian)\<close> of patchelf.h: the bytes of \<open>i\<close> in memory, read in the byte order
  of the file. \<open>n\<close> is \<^verbatim>\<open>sizeof(I)\<close>.
\<close>

definition rdi :: "bool \<Rightarrow> nat \<Rightarrow> nat \<Rightarrow> nat" where
  "rdi le n i = (if le then le_decode (le_encode n i) else le_decode (rev (le_encode n i)))"

text \<open>
  Modelled from the spec: \<^verbatim>\<open>wri(dst, v)\<close> is not among the sources; the spec describes it as
  an assignment that does not swap bytes. \<open>wri n v\<close> is the value an \<open>n\<close>-byte field holds
  after the assignment, which is also the value of the \<^verbatim>\<open>wri\<close> expression.
\<close>

definition wri :: "nat \<Rightarrow> nat \<Rightarrow> nat" where
  "wri n v = v mod 2 ^ (8 * n)"

text \<open>\<^verbatim>\<open>__builtin_mul_overflow\<close> and \<^verbatim>\<open>__builtin_add_overflow\<close> into a \<^verbatim>\<open>size_t\<close>.\<close>

definition builtin_mul_overflow :: "nat \<Rightarrow> nat \<Rightarrow> nat option" where
  "builtin_mul_overflow a b = (if a * b < 2 ^ 64 then Some (a * b) else None)"

definition builtin_add_overflow :: "nat \<Rightarrow> nat \<Rightarrow> nat option" where
  "builtin_add_overflow a b = (if a + b < 2 ^ 64 then Some (a + b) else None)"

text \<open>
  \<^verbatim>\<open>roundUp\<close> on \<^verbatim>\<open>uint64_t\<close>. Its callers pass a positive \<open>m\<close> (the section alignment, the
  page size) except for the alignment of a note section, where the division by zero is
  written out at the call.
\<close>

definition roundUp :: "nat \<Rightarrow> nat \<Rightarrow> nat" where
  "roundUp n m = (if n = 0 then m else u64 (((n - 1) div m + 1) * m))"

text \<open>Reads and writes of the byte buffer through a raw pointer.\<close>

definition load :: "bytes \<Rightarrow> nat \<Rightarrow> nat \<Rightarrow> error + bytes" where
  "load buf off n =
     (if off + n \<le> length buf then Inr (take n (drop off buf))
      else Inl (UndefinedBehaviour ''read outside the buffer''))"

definition store :: "bytes \<Rightarrow> nat \<Rightarrow> bytes \<Rightarrow> error + bytes" where
  "store buf off bs =
     (if off + length bs \<le> length buf then Inr (take off buf @ bs @ drop (off + length bs) buf)
      else Inl (UndefinedBehaviour ''write outside the buffer''))"

definition resize_bytes :: "bytes \<Rightarrow> nat \<Rightarrow> error + bytes" where
  "resize_bytes buf n =
     (if n < 2 ^ 63 then Inr (vec_resize buf n (CHR 0x00)) else Inl LengthError)"

section \<open>The ELF structures and the state of an \<^verbatim>\<open>ElfFile\<close>\<close>

text \<open>
  The class template is instantiated for 32 and 64 bits; \<open>is32Bit\<close> is the template
  parameter \<^verbatim>\<open>ElfClass\<close>. The other parameters are the file-scope settings
  \<^verbatim>\<open>forcedPageSize\<close>, \<^verbatim>\<open>noSort\<close> and \<^verbatim>\<open>clobberOldSections\<close>, and the address of the buffer,
  which the constructor adds to a file offset with an overflow check.
\<close>

record params =
  is32Bit :: bool
  forcedPageSize :: int
  noSort :: bool
  clobberOldSections :: bool
  dataAddress :: nat

text \<open>
  A program or section header is held as the C struct is: every field is the value the
  host sees (its raw bytes, little-endian), and is read through \<open>rdi\<close> wherever the source
  reads it through \<^verbatim>\<open>rdi\<close>.
\<close>

record Elf_Phdr =
  p_type :: nat
  p_flags :: nat
  p_offset :: nat
  p_vaddr :: nat
  p_paddr :: nat
  p_filesz :: nat
  p_memsz :: nat
  p_align :: nat

record Elf_Shdr =
  sh_name :: nat
  sh_type :: nat
  sh_flags :: nat
  sh_addr :: nat
  sh_offset :: nat
  sh_size :: nat
  sh_link :: nat
  sh_info :: nat
  sh_addralign :: nat
  sh_entsize :: nat

record elf_file =
  fileContents :: bytes
  phdrs :: "Elf_Phdr list"
  shdrs :: "Elf_Shdr list"
  littleEndian :: bool
  changed :: bool
  isExecutable :: bool
  sectionNames :: string
  sectionsByOldIndex :: "string list"
  replacedSections :: "(string \<times> bytes) list"
  stderr :: "warning list"

text \<open>
  \<open>replacedSections\<close> is the \<^verbatim>\<open>std::map\<close> of pending edits, as the list of its entries in
  the order of iteration (ascending keys). \<open>stderr\<close> collects the warnings printed.

  The header \<^verbatim>\<open>elf.h\<close> is not among the sources. The sizes, the field offsets and the
  constants below are those of the ELF format (System V ABI) for the two classes.
\<close>

definition sizeof_Ehdr :: "params \<Rightarrow> nat" where
  "sizeof_Ehdr c = (if is32Bit c then 52 else 64)"

definition sizeof_Phdr :: "params \<Rightarrow> nat" where
  "sizeof_Phdr c = (if is32Bit c then 32 else 56)"

definition sizeof_Shdr :: "params \<Rightarrow> nat" where
  "sizeof_Shdr c = (if is32Bit c then 40 else 64)"

definition sizeof_Sym :: "params \<Rightarrow> nat" where
  "sizeof_Sym c = (if is32Bit c then 16 else 24)"

definition sizeof_Dyn :: "params \<Rightarrow> nat" where
  "sizeof_Dyn c = (if is32Bit c then 8 else 16)"

definition sizeof_Off :: "params \<Rightarrow> nat" where
  "sizeof_Off c = (if is32Bit c then 4 else 8)"

definition wbits :: "params \<Rightarrow> nat" where
  "wbits c = 8 * sizeof_Off c"

text \<open>
  Modelled from the spec: \<^verbatim>\<open>sectionAlignment\<close> is declared in the class, which is not among
  the sources; the spec gives it as the ELF word alignment (4 or 8).
\<close>

definition sectionAlignment :: "params \<Rightarrow> nat" where
  "sectionAlignment c = sizeof_Off c"

definition ELFMAG :: bytes where "ELFMAG = [CHR 0x7F, CHR ''E'', CHR ''L'', CHR ''F'']"
definition ELFDATA2LSB :: nat where "ELFDATA2LSB = 1"
definition ET_EXEC :: nat where "ET_EXEC = 2"
definition ET_DYN :: nat where "ET_DYN = 3"
definition PT_LOAD :: nat where "PT_LOAD = 1"
definition PT_DYNAMIC :: nat where "PT_DYNAMIC = 2"
definition PT_INTERP :: nat where "PT_INTERP = 3"
definition PT_NOTE :: nat where "PT_NOTE = 4"
definition PT_PHDR :: nat where "PT_PHDR = 6"
definition PT_GNU_PROPERTY :: nat where "PT_GNU_PROPERTY = 0x6474e553"
definition PT_MIPS_ABIFLAGS :: nat where "PT_MIPS_ABIFLAGS = 0x70000003"
definition PF_W :: nat where "PF_W = 2"
definition PF_R :: nat where "PF_R = 4"
definition SHT_PROGBITS :: nat where "SHT_PROGBITS = 1"
definition SHT_SYMTAB :: nat where "SHT_SYMTAB = 2"
definition SHT_RELA :: nat where "SHT_RELA = 4"
definition SHT_NOTE :: nat where "SHT_NOTE = 7"
definition SHT_NOBITS :: nat where "SHT_NOBITS = 8"
definition SHT_REL :: nat where "SHT_REL = 9"
definition SHT_DYNSYM :: nat where "SHT_DYNSYM = 11"
definition SHN_UNDEF :: nat where "SHN_UNDEF = 0"
definition SHN_LORESERVE :: nat where "SHN_LORESERVE = 0xff00"
definition STT_SECTION :: nat where "STT_SECTION = 3"
definition DT_NULL :: nat where "DT_NULL = 0"
definition DT_HASH :: nat where "DT_HASH = 4"
definition DT_STRTAB :: nat where "DT_STRTAB = 5"
definition DT_SYMTAB :: nat where "DT_SYMTAB = 6"
definition DT_RELA :: nat where "DT_RELA = 7"
definition DT_STRSZ :: nat where "DT_STRSZ = 10"
definition DT_REL :: nat where "DT_REL = 17"
definition DT_JMPREL :: nat where "DT_JMPREL = 23"
definition DT_GNU_HASH :: nat where "DT_GNU_HASH = 0x6ffffef5"
definition DT_VERSYM :: nat where "DT_VERSYM = 0x6ffffff0"
definition DT_VERNEED :: nat where "DT_VERNEED = 0x6ffffffe"
definition DT_MIPS_RLD_MAP_REL :: nat where "DT_MIPS_RLD_MAP_REL = 0x70000035"
definition DT_MIPS_XHASH :: nat where "DT_MIPS_XHASH = 0x70000036"
definition EM_SPARC :: nat where "EM_SPARC = 2"
definition EM_MIPS :: nat where "EM_MIPS = 8"
definition EM_PPC :: nat where "EM_PPC = 20"
definition EM_PPC64 :: nat where "EM_PPC64 = 21"
definition EM_SPARCV9 :: nat where "EM_SPARCV9 = 43"
definition EM_IA_64 :: nat where "EM_IA_64 = 50"
definition EM_AARCH64 :: nat where "EM_AARCH64 = 183"
definition EM_TILEGX :: nat where "EM_TILEGX = 191"
definition EM_LOONGARCH :: nat where "EM_LOONGARCH = 258"
definition EM_ALPHA :: nat where "EM_ALPHA = 0x9026"

definition field :: "bytes \<Rightarrow> nat \<Rightarrow> nat \<Rightarrow> nat" where
  "field bs off n = le_decode (take n (drop off bs))"

definition decode_Phdr :: "params \<Rightarrow> bytes \<Rightarrow> Elf_Phdr" where
  "decode_Phdr c bs =
     (if is32Bit c then
        \<lparr>p_type = field bs 0 4, p_flags = field bs 24 4, p_offset = field bs 4 4,
         p_vaddr = field bs 8 4, p_paddr = field bs 12 4, p_filesz = field bs 16 4,
         p_memsz = field bs 20 4, p_align = field bs 28 4\<rparr>
      else
        \<lparr>p_type = field bs 0 4, p_flags = field bs 4 4, p_offset = field bs 8 8,
         p_vaddr = field bs 16 8, p_paddr = field bs 24 8, p_filesz = field bs 32 8,
         p_memsz = field bs 40 8, p_align = field bs 48 8\<rparr>)"

definition encode_Phdr :: "params \<Rightarrow> Elf_Phdr \<Rightarrow> bytes" where
  "encode_Phdr c p =
     (if is32Bit c then
        le_encode 4 (p_type p) @ le_encode 4 (p_offset p) @ le_encode 4 (p_vaddr p) @
        le_encode 4 (p_paddr p) @ le_encode 4 (p_filesz p) @ le_encode 4 (p_memsz p) @
        le_encode 4 (p_flags p) @ le_encode 4 (p_align p)
      else
        le_encode 4 (p_type p) @ le_encode 4 (p_flags p) @ le_encode 8 (p_offset p) @
        le_encode 8 (p_vaddr p) @ le_encode 8 (p_paddr p) @ le_encode 8 (p_filesz p) @
        le_encode 8 (p_memsz p) @ le_encode 8 (p_align p))"

definition decode_Shdr :: "params \<Rightarrow> bytes \<Rightarrow> Elf_Shdr" where
  "decode_Shdr c bs =
     (if is32Bit c then
        \<lparr>sh_name = field bs 0 4, sh_type = field bs 4 4, sh_flags = field bs 8 4,
         sh_addr = field bs 12 4, sh_offset = field bs 16 4, sh_size = field bs 20 4,
         sh_link = field bs 24 4, sh_info = field bs 28 4, sh_addralign = field bs 32 4,
         sh_entsize = field bs 36 4\<rparr>
      else
        \<lparr>sh_name = field bs 0 4, sh_type = field bs 4 4, sh_flags = field bs 8 8,
         sh_addr = field bs 16 8, sh_offset = field bs 24 8, sh_size = field bs 32 8,
         sh_link = field bs 40 4, sh_info = field bs 44 4, sh_addralign = field bs 48 8,
         sh_entsize = field bs 56 8\<rparr>)"

definition encode_Shdr :: "params \<Rightarrow> Elf_Shdr \<Rightarrow> bytes" where
  "encode_Shdr c s =
     (let w = sizeof_Off c in
      le_encode 4 (sh_name s) @ le_encode 4 (sh_type s) @ le_encode w (sh_flags s) @
      le_encode w (sh_addr s) @ le_encode w (sh_offset s) @ le_encode w (sh_size s) @
      le_encode 4 (sh_link s) @ le_encode 4 (sh_info s) @ le_encode w (sh_addralign s) @
      le_encode w (sh_entsize s))"

definition zero_Phdr :: Elf_Phdr where
  "zero_Phdr = \<lparr>p_type = 0, p_flags = 0, p_offset = 0, p_vaddr = 0, p_paddr = 0,
                 p_filesz = 0, p_memsz = 0, p_align = 0\<rparr>"

text \<open>Reading a struct field of class width, of four and of two bytes through \<^verbatim>\<open>rdi\<close>.\<close>

definition rdW :: "params \<Rightarrow> elf_file \<Rightarrow> nat \<Rightarrow> nat" where
  "rdW c st x = rdi (littleEndian st) (sizeof_Off c) x"

definition rd4 :: "elf_file \<Rightarrow> nat \<Rightarrow> nat" where
  "rd4 st x = rdi (littleEndian st) 4 x"

definition rd2 :: "elf_file \<Rightarrow> nat \<Rightarrow> nat" where
  "rd2 st x = rdi (littleEndian st) 2 x"

definition wrW :: "params \<Rightarrow> nat \<Rightarrow> nat" where
  "wrW c v = wri (sizeof_Off c) v"

text \<open>
  \<^verbatim>\<open>hdr()\<close> is declared in the class, which is not among the sources; every use of it reads
  the ELF header at the start of \<open>fileContents\<close>, so a header field is read from and written
  to the bytes of the buffer. The reads presuppose a buffer that holds a whole header,
  which the constructor checks first.
\<close>

definition hdr_rdi :: "elf_file \<Rightarrow> nat \<Rightarrow> nat \<Rightarrow> nat" where
  "hdr_rdi st off n = rdi (littleEndian st) n (field (fileContents st) off n)"

definition hdr_wri :: "elf_file \<Rightarrow> nat \<Rightarrow> nat \<Rightarrow> nat \<Rightarrow> error + elf_file" where
  "hdr_wri st off n v =
     bindE (store (fileContents st) off (le_encode n v)) (\<lambda>fc. Inr (st\<lparr>fileContents := fc\<rparr>))"

definition e_type :: "elf_file \<Rightarrow> nat" where
  "e_type st = hdr_rdi st 16 2"

definition e_machine :: "elf_file \<Rightarrow> nat" where
  "e_machine st = hdr_rdi st 18 2"

definition e_phoff :: "params \<Rightarrow> elf_file \<Rightarrow> nat" where
  "e_phoff c st = (if is32Bit c then hdr_rdi st 28 4 else hdr_rdi st 32 8)"

definition e_shoff :: "params \<Rightarrow> elf_file \<Rightarrow> nat" where
  "e_shoff c st = (if is32Bit c then hdr_rdi st 32 4 else hdr_rdi st 40 8)"

definition e_phentsize :: "params \<Rightarrow> elf_file \<Rightarrow> nat" where
  "e_phentsize c st = hdr_rdi st (if is32Bit c then 42 else 54) 2"

definition e_phnum :: "params \<Rightarrow> elf_file \<Rightarrow> nat" where
  "e_phnum c st = hdr_rdi st (if is32Bit c then 44 else 56) 2"

definition e_shentsize :: "params \<Rightarrow> elf_file \<Rightarrow> nat" where
  "e_shentsize c st = hdr_rdi st (if is32Bit c then 46 else 58) 2"

definition e_shnum :: "params \<Rightarrow> elf_file \<Rightarrow> nat" where
  "e_shnum c st = hdr_rdi st (if is32Bit c then 48 else 60) 2"

definition e_shstrndx :: "params \<Rightarrow> elf_file \<Rightarrow> nat" where
  "e_shstrndx c st = hdr_rdi st (if is32Bit c then 50 else 62) 2"

definition set_e_phoff :: "params \<Rightarrow> nat \<Rightarrow> elf_file \<Rightarrow> error + elf_file" where
  "set_e_phoff c v st = (if is32Bit c then hdr_wri st 28 4 v else hdr_wri st 32 8 v)"

definition set_e_shoff :: "params \<Rightarrow> nat \<Rightarrow> elf_file \<Rightarrow> error + elf_file" where
  "set_e_shoff c v st = (if is32Bit c then hdr_wri st 32 4 v else hdr_wri st 40 8 v)"

definition set_e_phnum :: "params \<Rightarrow> nat \<Rightarrow> elf_file \<Rightarrow> error + elf_file" where
  "set_e_phnum c v st = hdr_wri st (if is32Bit c then 44 else 56) 2 v"

definition set_e_shstrndx :: "params \<Rightarrow> nat \<Rightarrow> elf_file \<Rightarrow> error + elf_file" where
  "set_e_shstrndx c v st = hdr_wri st (if is32Bit c then 50 else 62) 2 v"

lemma length_le_encode [simp]: "length (le_encode n v) = n"
  by (induction n arbitrary: v) simp_all

lemma le_decode_bound: "le_decode bs < 256 ^ length bs"
proof (induction bs)
  case Nil
  show ?case by simp
next
  case (Cons b bs)
  have "of_char b < (256 :: nat)"
    by simp
  moreover have "le_decode bs < 256 ^ length bs"
    by (rule Cons.IH)
  ultimately have "of_char b + 256 * le_decode bs < 256 * 256 ^ length bs"
    by linarith
  then show ?case
    by simp
qed

lemma rdi_bound: "rdi le n i < 256 ^ n"
  using le_decode_bound [of "le_encode n i"] le_decode_bound [of "rev (le_encode n i)"]
  by (simp add: rdi_def)

lemma e_shnum_bound: "e_shnum c st < 65536"
  using rdi_bound [of "littleEndian st" 2] by (simp add: e_shnum_def hdr_rdi_def)

section \<open>The section directory\<close>

definition getSectionName :: "elf_file \<Rightarrow> Elf_Shdr \<Rightarrow> error + string" where
  "getSectionName st shdr =
     (let name_off = rd4 st (sh_name shdr) in
      if name_off \<ge> length (sectionNames st)
      then Inl (Error ''section name offset out of bounds'')
      else Inr (takeWhile (\<lambda>ch. ch \<noteq> CHR 0x00) (drop name_off (sectionNames st))))"

function getSectionIndex_from :: "params \<Rightarrow> elf_file \<Rightarrow> string \<Rightarrow> nat \<Rightarrow> error + nat" where
  "getSectionIndex_from c st sectionName i =
     (if i < e_shnum c st then
        bindE (vec_at (shdrs st) i) (\<lambda>shdr.
        bindE (getSectionName st shdr) (\<lambda>n.
        if n = sectionName then Inr i else getSectionIndex_from c st sectionName (Suc i)))
      else Inr 0)"
  by pat_completeness auto
termination
  by (relation "measure (\<lambda>(c, st, sectionName, i). e_shnum c st - i)") auto

declare getSectionIndex_from.simps [simp del]

definition getSectionIndex :: "params \<Rightarrow> elf_file \<Rightarrow> string \<Rightarrow> error + nat" where
  "getSectionIndex c st sectionName = getSectionIndex_from c st sectionName 1"

definition tryFindSectionHeader :: "params \<Rightarrow> elf_file \<Rightarrow> string \<Rightarrow> error + Elf_Shdr option" where
  "tryFindSectionHeader c st sectionName =
     bindE (getSectionIndex c st sectionName) (\<lambda>i.
     if i \<noteq> 0 then bindE (vec_at (shdrs st) i) (\<lambda>shdr. Inr (Some shdr)) else Inr None)"

definition findSectionHeader :: "params \<Rightarrow> elf_file \<Rightarrow> string \<Rightarrow> error + Elf_Shdr" where
  "findSectionHeader c st sectionName =
     bindE (tryFindSectionHeader c st sectionName) (\<lambda>shdr.
     case shdr of
       None \<Rightarrow>
         Inl (Error (''cannot find section '' @ [CHR 0x27] @ sectionName @ [CHR 0x27] @
           (if sectionName = ''.interp'' \<or> sectionName = ''.dynamic'' \<or> sectionName = ''.dynstr''
            then ''. The input file is most likely statically linked'' else [])))
     | Some sh \<Rightarrow> Inr sh)"

section \<open>The edit buffer\<close>

fun rs_insert :: "string \<Rightarrow> bytes \<Rightarrow> (string \<times> bytes) list \<Rightarrow> (string \<times> bytes) list" where
  "rs_insert k v [] = [(k, v)]"
| "rs_insert k v ((k', v') # rs) =
     (if k = k' then (k, v) # rs
      else if k < k' then (k, v) # (k', v') # rs
      else (k', v') # rs_insert k v rs)"

definition hasReplacedSection :: "elf_file \<Rightarrow> string \<Rightarrow> bool" where
  "hasReplacedSection st sectionName = (map_of (replacedSections st) sectionName \<noteq> None)"

definition canReplaceSection :: "params \<Rightarrow> elf_file \<Rightarrow> string \<Rightarrow> error + bool" where
  "canReplaceSection c st sectionName =
     bindE (findSectionHeader c st sectionName) (\<lambda>shdr.
     Inr (sectionName = ''.interp'' \<or> rd4 st (sh_type shdr) \<noteq> SHT_PROGBITS))"

definition extractString :: "bytes \<Rightarrow> nat \<Rightarrow> nat \<Rightarrow> error + bytes" where
  "extractString contents offset n = load contents offset n"

definition resize_string :: "bytes \<Rightarrow> nat \<Rightarrow> bytes" where
  "resize_string s n = vec_resize s n (CHR 0x00)"

text \<open>
  \<open>replaceSection\<close> returns a reference to the entry it has stored: the buffer returned is
  the entry of the name in \<open>replacedSections\<close> of the state returned.
\<close>

definition replaceSection :: "params \<Rightarrow> elf_file \<Rightarrow> string \<Rightarrow> nat \<Rightarrow> error + elf_file" where
  "replaceSection c st sectionName n =
     bindE (case map_of (replacedSections st) sectionName of
              Some s \<Rightarrow> Inr s
            | None \<Rightarrow>
                bindE (findSectionHeader c st sectionName) (\<lambda>shdr.
                extractString (fileContents st) (rdW c st (sh_offset shdr)) (rdW c st (sh_size shdr))))
       (\<lambda>s. Inr (st\<lparr>replacedSections :=
                      rs_insert sectionName (resize_string s n) (replacedSections st)\<rparr>))"

section \<open>Page size and sorting\<close>

definition getPageSize :: "params \<Rightarrow> elf_file \<Rightarrow> nat" where
  "getPageSize c st =
     (if forcedPageSize c > 0 then u32 (nat (forcedPageSize c))
      else if e_machine st \<in> {EM_ALPHA, EM_IA_64, EM_MIPS, EM_PPC, EM_PPC64, EM_AARCH64,
                               EM_TILEGX, EM_LOONGARCH} then 0x10000
      else if e_machine st \<in> {EM_SPARC, EM_SPARCV9} then 0x2000
      else 0x1000)"

text \<open>
  Modelled from the spec: the comparators \<^verbatim>\<open>CompPhdr\<close> and \<^verbatim>\<open>CompShdr\<close> are declared in the
  class, which is not among the sources; the spec has both tables sorted by offset, stably.
\<close>

definition sortPhdrs :: "params \<Rightarrow> elf_file \<Rightarrow> elf_file" where
  "sortPhdrs c st = st\<lparr>phdrs := sort_key (\<lambda>p. rdW c st (p_offset p)) (phdrs st)\<rparr>"

function for_shnum ::
  "params \<Rightarrow> (nat \<Rightarrow> elf_file \<Rightarrow> error + elf_file) \<Rightarrow> nat \<Rightarrow> elf_file \<Rightarrow> error + elf_file" where
  "for_shnum c body i st =
     (if i < e_shnum c st then bindE (body i st) (\<lambda>st'. for_shnum c body (Suc i) st')
      else Inr st)"
  by pat_completeness auto
termination
proof (relation "measure (\<lambda>(c, body, i, st). 65536 - i)")
  show "wf (measure (\<lambda>(c, body, i, st). 65536 - i))"
    by simp
next
  fix c :: params and body :: "nat \<Rightarrow> elf_file \<Rightarrow> error + elf_file" and i st x
  assume "i < e_shnum c st"
  with e_shnum_bound [of c st] have "i < 65536"
    by simp
  then show "((c, body, Suc i, x), (c, body, i, st)) \<in> measure (\<lambda>(c, body, i, st). 65536 - i)"
    by simp
qed

declare for_shnum.simps [simp del]

definition sortShdrs :: "params \<Rightarrow> elf_file \<Rightarrow> error + elf_file" where
  "sortShdrs c st =
     bindE (foldE (\<lambda>i linkage.
              bindE (vec_at (shdrs st) i) (\<lambda>sh.
              if rd4 st (sh_link sh) \<noteq> 0 then
                bindE (vec_at (shdrs st) (rd4 st (sh_link sh))) (\<lambda>tgt.
                bindE (getSectionName st tgt) (\<lambda>tn.
                bindE (getSectionName st sh) (\<lambda>n. Inr ((n, tn) # linkage))))
              else Inr linkage)) [1..<e_shnum c st] []) (\<lambda>linkage.
     bindE (foldE (\<lambda>i info.
              bindE (vec_at (shdrs st) i) (\<lambda>sh.
              if rd4 st (sh_info sh) \<noteq> 0 \<and>
                 (rd4 st (sh_type sh) = SHT_REL \<or> rd4 st (sh_type sh) = SHT_RELA) then
                bindE (vec_at (shdrs st) (rd4 st (sh_info sh))) (\<lambda>tgt.
                bindE (getSectionName st tgt) (\<lambda>tn.
                bindE (getSectionName st sh) (\<lambda>n. Inr ((n, tn) # info))))
              else Inr info)) [1..<e_shnum c st] []) (\<lambda>info.
     bindE (vec_at (shdrs st) (e_shstrndx c st)) (\<lambda>shstrtab.
     bindE (case shdrs st of
              [] \<Rightarrow> Inl (UndefinedBehaviour ''begin() + 1 of an empty vector'')
            | s0 # rest \<Rightarrow>
                Inr (st\<lparr>shdrs := s0 # sort_key (\<lambda>s. rdW c st (sh_offset s)) rest\<rparr>)) (\<lambda>st1.
     bindE (foldE (\<lambda>i s.
              bindE (vec_index (shdrs s) i) (\<lambda>sh.
              if rd4 s (sh_link sh) \<noteq> 0 then
                bindE (getSectionName s sh) (\<lambda>n.
                bindE (getSectionIndex c s (case map_of linkage n of Some t \<Rightarrow> t | None \<Rightarrow> [])) (\<lambda>j.
                Inr (s\<lparr>shdrs := (shdrs s)[i := sh\<lparr>sh_link := wri 4 j\<rparr>]\<rparr>)))
              else Inr s)) [1..<e_shnum c st1] st1) (\<lambda>st2.
     bindE (foldE (\<lambda>i s.
              bindE (vec_at (shdrs s) i) (\<lambda>sh.
              if rd4 s (sh_info sh) \<noteq> 0 \<and>
                 (rd4 s (sh_type sh) = SHT_REL \<or> rd4 s (sh_type sh) = SHT_RELA) then
                bindE (getSectionName s sh) (\<lambda>n.
                bindE (case map_of info n of Some t \<Rightarrow> Inr t | None \<Rightarrow> Inl OutOfRange) (\<lambda>t.
                bindE (getSectionIndex c s t) (\<lambda>j.
                Inr (s\<lparr>shdrs := (shdrs s)[i := sh\<lparr>sh_info := wri 4 j\<rparr>]\<rparr>))))
              else Inr s)) [1..<e_shnum c st2] st2) (\<lambda>st3.
     for_shnum c (\<lambda>i s.
        bindE (vec_at (shdrs s) i) (\<lambda>sh.
        if sh_offset sh = sh_offset shstrtab then set_e_shstrndx c i s else Inr s)) 1 st3))))))"

section \<open>The constructor\<close>

text \<open>
  Modelled from the spec: \<^verbatim>\<open>checkPointer\<close> is not among the sources; following the spec's
  structural errors it fails when the region of \<open>n\<close> bytes at offset \<open>off\<close> does not lie
  within the file.
\<close>

definition checkPointer :: "bytes \<Rightarrow> nat \<Rightarrow> nat \<Rightarrow> error + unit" where
  "checkPointer contents off n =
     (if n > length contents \<or> off > length contents - n
      then Inl (Error ''data region extends past file end'') else Inr ())"

definition table_out_of_bounds :: "nat \<Rightarrow> nat \<Rightarrow> nat \<Rightarrow> nat \<Rightarrow> bool" where
  "table_out_of_bounds offset num entsize filesize =
     (case builtin_mul_overflow num entsize of
        None \<Rightarrow> True
      | Some tsize \<Rightarrow>
          (case builtin_add_overflow offset tsize of
             None \<Rightarrow> True
           | Some tend \<Rightarrow> tend > filesize))"

definition copy_phdr :: "params \<Rightarrow> nat \<Rightarrow> elf_file \<Rightarrow> error + elf_file" where
  "copy_phdr c i st =
     (let off = e_phoff c st + i * sizeof_Phdr c in
      bindE (checkPointer (fileContents st) off (sizeof_Phdr c)) (\<lambda>_.
      let phdr = decode_Phdr c (drop off (fileContents st)) in
      Inr (st\<lparr>phdrs := phdrs st @ [phdr],
              isExecutable := (if rd4 st (p_type phdr) = PT_INTERP then True else isExecutable st)\<rparr>)))"

definition copy_shdr :: "params \<Rightarrow> nat \<Rightarrow> elf_file \<Rightarrow> error + elf_file" where
  "copy_shdr c i st =
     (let off = e_shoff c st + i * sizeof_Shdr c in
      bindE (checkPointer (fileContents st) off (sizeof_Shdr c)) (\<lambda>_.
      Inr (st\<lparr>shdrs := shdrs st @ [decode_Shdr c (drop off (fileContents st))]\<rparr>)))"

definition read_shstrtab :: "params \<Rightarrow> elf_file \<Rightarrow> error + elf_file" where
  "read_shstrtab c st =
     (let shstrtabIndex = e_shstrndx c st in
      if shstrtabIndex \<ge> length (shdrs st) then Inl (Error ''string table index out of bounds'')
      else
        let shstrtabSize = rdW c st (sh_size (shdrs st ! shstrtabIndex));
            off = rdW c st (sh_offset (shdrs st ! shstrtabIndex))
        in case builtin_add_overflow (dataAddress c) off of
             None \<Rightarrow> Inl (Error ''string table overflow'')
           | Some _ \<Rightarrow>
               bindE (checkPointer (fileContents st) off shstrtabSize) (\<lambda>_.
               if shstrtabSize = 0 then Inl (Error ''string table size is zero'')
               else if fileContents st ! (off + shstrtabSize - 1) \<noteq> CHR 0x00
               then Inl (Error ''string table is not zero terminated'')
               else Inr (st\<lparr>sectionNames := take shstrtabSize (drop off (fileContents st))\<rparr>)))"

definition capture_names :: "elf_file \<Rightarrow> error + elf_file" where
  "capture_names st =
     foldE (\<lambda>i s.
        bindE (vec_at (shdrs s) i) (\<lambda>shdr.
        bindE (getSectionName s shdr) (\<lambda>n.
        Inr (s\<lparr>sectionsByOldIndex := (sectionsByOldIndex s)[i := n]\<rparr>))))
       [1..<length (shdrs st)]
       (st\<lparr>sectionsByOldIndex := vec_resize (sectionsByOldIndex st) (length (shdrs st)) []\<rparr>)"

text \<open>
  The object as the constructor has it when it reads the first header field: the buffer
  is stored, \<open>littleEndian\<close> is set from \<^verbatim>\<open>e_ident[EI_DATA]\<close>, every container is empty.
\<close>

definition initial_state :: "bytes \<Rightarrow> elf_file" where
  "initial_state fContents =
     \<lparr>fileContents = fContents, phdrs = [], shdrs = [],
      littleEndian = (of_char (fContents ! 5) = ELFDATA2LSB),
      changed = False, isExecutable = False, sectionNames = [],
      sectionsByOldIndex = [], replacedSections = [], stderr = []\<rparr>"

definition ElfFile :: "params \<Rightarrow> bytes \<Rightarrow> error + elf_file" where
  "ElfFile c fContents =
     (if length fContents < sizeof_Ehdr c then Inl (Error ''missing ELF header'')
      else if take 4 fContents \<noteq> ELFMAG then Inl (Error ''not an ELF executable'')
      else
        let st = initial_state fContents in
        if e_type st \<noteq> ET_EXEC \<and> e_type st \<noteq> ET_DYN then Inl (Error ''wrong ELF type'')
        else if table_out_of_bounds (e_phoff c st) (e_phnum c st) (e_phentsize c st)
                  (length fContents)
        then Inl (Error ''program header table out of bounds'')
        else if e_shnum c st = 0
        then Inl (Error ''no section headers. The input file is probably a statically linked, self-decompressing binary'')
        else if table_out_of_bounds (e_shoff c st) (e_shnum c st) (e_shentsize c st)
                  (length fContents)
        then Inl (Error ''section header table out of bounds'')
        else if e_phentsize c st \<noteq> sizeof_Phdr c
        then Inl (Error ''program headers have wrong size'')
        else
          bindE (foldE (copy_phdr c) [0..<e_phnum c st] st) (\<lambda>st1.
          bindE (foldE (copy_shdr c) [0..<e_shnum c st1] st1) (\<lambda>st2.
          bindE (read_shstrtab c st2) capture_names)))"

section \<open>Shifting the file\<close>

definition shift_phdr ::
  "params \<Rightarrow> nat \<Rightarrow> nat \<Rightarrow> nat \<Rightarrow> (elf_file \<times> nat option \<times> nat) \<Rightarrow>
   error + (elf_file \<times> nat option \<times> nat)" where
  "shift_phdr c startOffset shift i = (\<lambda>(st, splitIndex, splitShift).
     bindE (vec_at (phdrs st) i) (\<lambda>ph0.
     let p_start0 = rdW c st (p_offset ph0);
         split = (p_start0 \<le> startOffset
                  \<and> (p_start0 + rdW c st (p_filesz ph0)) mod 2 ^ wbits c > startOffset
                  \<and> rd4 st (p_type ph0) = PT_LOAD)
     in
     bindE (if split then assertE (splitIndex = None) ''splitIndex == -1'' else Inr ()) (\<lambda>_.
     let splitShift' = (if split then usub 64 startOffset p_start0 else splitShift);
         splitIndex' = (if split then Some i else splitIndex);
         ph1 = (if split then
                  ph0\<lparr>p_offset := wrW c startOffset,
                      p_memsz := wrW c (usub 64 (rdW c st (p_memsz ph0)) splitShift'),
                      p_filesz := wrW c (usub 64 (rdW c st (p_filesz ph0)) splitShift'),
                      p_paddr := wrW c (rdW c st (p_paddr ph0) + splitShift'),
                      p_vaddr := wrW c (rdW c st (p_vaddr ph0) + splitShift')\<rparr>
                else ph0);
         p_start = (if split then startOffset mod 2 ^ wbits c else p_start0);
         ph2 = (if p_start \<ge> startOffset then
                  (let ph = ph1\<lparr>p_offset := wrW c (p_start + shift)\<rparr> in
                   if rdW c st (p_align ph) \<noteq> 0 \<and>
                      usub (wbits c) (rdW c st (p_vaddr ph)) (rdW c st (p_offset ph))
                        mod rdW c st (p_align ph) \<noteq> 0
                   then ph\<lparr>p_align := wrW c (getPageSize c st)\<rparr> else ph)
                else
                  (let pa = (if rdW c st (p_paddr ph1) \<ge> shift
                             then ph1\<lparr>p_paddr := wrW c (usub 64 (rdW c st (p_paddr ph1)) shift)\<rparr>
                             else ph1)
                   in if rdW c st (p_vaddr pa) \<ge> shift
                      then pa\<lparr>p_vaddr := wrW c (usub 64 (rdW c st (p_vaddr pa)) shift)\<rparr>
                      else pa))
     in Inr (st\<lparr>phdrs := (phdrs st)[i := ph2]\<rparr>, splitIndex', splitShift'))))"

definition shiftFile :: "params \<Rightarrow> nat \<Rightarrow> nat \<Rightarrow> nat \<Rightarrow> elf_file \<Rightarrow> error + elf_file" where
  "shiftFile c extraPages startOffset extraBytes st =
     bindE (assertE (startOffset \<ge> sizeof_Ehdr c) ''startOffset >= sizeof(Elf_Ehdr)'') (\<lambda>_.
     let oldSize = length (fileContents st) in
     bindE (assertE (oldSize > startOffset) ''oldSize > startOffset'') (\<lambda>_.
     let shift = u32 (extraPages * getPageSize c st) in
     bindE (resize_bytes (fileContents st) (u64 (oldSize + shift))) (\<lambda>fc1.
     bindE (load fc1 startOffset (oldSize - startOffset)) (\<lambda>moved.
     bindE (store fc1 (startOffset + shift) moved) (\<lambda>fc2.
     bindE (store fc2 startOffset (replicate shift (CHR 0x00))) (\<lambda>fc3.
     bindE (set_e_phoff c (sizeof_Ehdr c) (st\<lparr>fileContents := fc3\<rparr>)) (\<lambda>st1.
     bindE (if e_shoff c st1 \<ge> startOffset then set_e_shoff c (e_shoff c st1 + shift) st1
            else Inr st1) (\<lambda>st2.
     bindE (foldE (\<lambda>i s.
              bindE (vec_at (shdrs s) i) (\<lambda>sh.
              let sh_off = rdW c s (sh_offset sh) in
              if sh_off \<ge> startOffset
              then Inr (s\<lparr>shdrs := (shdrs s)[i := sh\<lparr>sh_offset := wrW c (sh_off + shift)\<rparr>]\<rparr>)
              else Inr s)) [1..<e_shnum c st2] st2) (\<lambda>st3.
     bindE (foldE (shift_phdr c startOffset shift) [0..<e_phnum c st3] (st3, None, 0))
       (\<lambda>(st4, splitIndex, splitShift).
     case splitIndex of
       None \<Rightarrow> Inl (AssertionFailed ''splitIndex != -1'')
     | Some si \<Rightarrow>
         let phs = vec_resize (phdrs st4) (e_phnum c st4 + 1) zero_Phdr in
         bindE (set_e_phnum c (e_phnum c st4 + 1) (st4\<lparr>phdrs := phs\<rparr>)) (\<lambda>st5.
         if e_phnum c st5 = 0 \<or> e_phnum c st5 - 1 \<ge> length (phdrs st5) then Inl OutOfRange
         else
           bindE (vec_at (phdrs st5) si) (\<lambda>sp.
           let last = e_phnum c st5 - 1;
               sz = wrW c (splitShift + extraBytes);
               phdr = (phdrs st5 ! last)\<lparr>
                        p_type := wri 4 PT_LOAD,
                        p_offset := wrW c (usub 64 (usub 64 (p_offset sp) splitShift) shift),
                        p_paddr := wrW c (usub 64 (usub 64 (p_paddr sp) splitShift) shift),
                        p_vaddr := wrW c (usub 64 (usub 64 (p_vaddr sp) splitShift) shift),
                        p_memsz := sz, p_filesz := wrW c sz,
                        p_flags := wri 4 (PF_R + PF_W),
                        p_align := wrW c (getPageSize c st5)\<rparr>
           in Inr (st5\<lparr>phdrs := (phdrs st5)[last := phdr]\<rparr>)))))))))))))"

section \<open>Writing the replaced sections\<close>

definition sync_phdrs :: "elf_file \<Rightarrow> nat \<Rightarrow> Elf_Shdr \<Rightarrow> Elf_Phdr list \<Rightarrow> Elf_Phdr list" where
  "sync_phdrs st ptype shdr phs =
     map (\<lambda>phdr.
       if rd4 st (p_type phdr) = ptype
       then phdr\<lparr>p_offset := sh_offset shdr, p_vaddr := sh_addr shdr, p_paddr := sh_addr shdr,
                 p_filesz := sh_size shdr, p_memsz := sh_size shdr\<rparr>
       else phdr) phs"

definition sync_note_phdr ::
  "params \<Rightarrow> elf_file \<Rightarrow> Elf_Shdr \<Rightarrow> Elf_Shdr \<Rightarrow> nat \<Rightarrow> (Elf_Phdr list \<times> nat set) \<Rightarrow>
   error + (Elf_Phdr list \<times> nat set)" where
  "sync_note_phdr c st orig_shdr shdr j = (\<lambda>(phs, noted_phdrs).
     bindE (vec_at phs j) (\<lambda>phdr.
     if rd4 st (p_type phdr) = PT_NOTE \<and> j \<notin> noted_phdrs then
       (let p_start = rdW c st (p_offset phdr);
            p_end = (p_start + rdW c st (p_filesz phdr)) mod 2 ^ wbits c;
            s_start = rdW c st (sh_offset orig_shdr);
            s_end = (s_start + rdW c st (sh_size orig_shdr)) mod 2 ^ wbits c
        in if \<not> (s_start \<ge> p_start \<and> s_start < p_end) \<and> \<not> (s_end > p_start \<and> s_end \<le> p_end)
           then Inr (phs, noted_phdrs)
           else if p_start \<noteq> s_start \<or> p_end \<noteq> s_end
           then Inl (Error ''unsupported overlap of SHT_NOTE and PT_NOTE'')
           else Inr (phs[j := phdr\<lparr>p_offset := sh_offset shdr, p_vaddr := sh_addr shdr,
                                     p_paddr := sh_addr shdr, p_filesz := sh_size shdr,
                                     p_memsz := sh_size shdr\<rparr>],
                     insert j noted_phdrs))
     else Inr (phs, noted_phdrs)))"

definition write_section ::
  "params \<Rightarrow> nat \<Rightarrow> nat \<Rightarrow> nat \<Rightarrow> (elf_file \<times> nat \<times> nat set) \<Rightarrow>
   error + (elf_file \<times> nat \<times> nat set)" where
  "write_section c startAddr startOffset k = (\<lambda>(st, curOff, noted_phdrs).
     bindE (vec_index (shdrs st) k) (\<lambda>orig_shdr.
     bindE (getSectionName st orig_shdr) (\<lambda>sectionName.
     case map_of (replacedSections st) sectionName of
       None \<Rightarrow> Inr (st, curOff, noted_phdrs)
     | Some buf \<Rightarrow>
         bindE (store (fileContents st) curOff buf) (\<lambda>fc.
         let shdr1 = orig_shdr\<lparr>
                       sh_offset := wrW c curOff,
                       sh_addr := wrW c (startAddr + usub (wbits c) curOff startOffset),
                       sh_size := wrW c (length buf),
                       sh_addralign := wrW c (sectionAlignment c)\<rparr>;
             phs1 = (if sectionName = ''.interp'' then sync_phdrs st PT_INTERP shdr1 (phdrs st)
                     else if sectionName = ''.dynamic'' then sync_phdrs st PT_DYNAMIC shdr1 (phdrs st)
                     else phdrs st)
         in
         bindE (if rd4 st (sh_type shdr1) = SHT_NOTE then
                  (let shdr2 = (if sh_addralign orig_shdr < sectionAlignment c
                                then shdr1\<lparr>sh_addralign := sh_addralign orig_shdr\<rparr> else shdr1)
                   in bindE (foldE (sync_note_phdr c st orig_shdr shdr2) [0..<length phs1]
                               (phs1, noted_phdrs))
                        (\<lambda>(phs2, noted2). Inr (shdr2, phs2, noted2)))
                else Inr (shdr1, phs1, noted_phdrs)) (\<lambda>(shdr3, phs3, noted3).
         let phs4 = (if sectionName = ''.MIPS.abiflags''
                     then sync_phdrs st PT_MIPS_ABIFLAGS shdr3 phs3 else phs3);
             phs5 = (if sectionName = ''.note.gnu.property''
                     then sync_phdrs st PT_GNU_PROPERTY shdr3 phs4 else phs4)
         in Inr (st\<lparr>fileContents := fc, shdrs := (shdrs st)[k := shdr3], phdrs := phs5\<rparr>,
                 (curOff + roundUp (length buf) (sectionAlignment c)) mod 2 ^ wbits c,
                 noted3))))))"

definition clobber_section :: "params \<Rightarrow> string \<times> bytes \<Rightarrow> elf_file \<Rightarrow> error + elf_file" where
  "clobber_section c entry st =
     bindE (findSectionHeader c st (fst entry)) (\<lambda>shdr.
     if rd4 st (sh_type shdr) \<noteq> SHT_NOBITS then
       bindE (store (fileContents st) (rdW c st (sh_offset shdr))
                (replicate (rdW c st (sh_size shdr)) (CHR ''Z''))) (\<lambda>fc.
       Inr (st\<lparr>fileContents := fc\<rparr>))
     else Inr st)"

text \<open>
  \<open>writeReplacedSections\<close> advances the offset it is given by reference; the model returns
  the state together with the new offset.
\<close>

definition writeReplacedSections ::
  "params \<Rightarrow> nat \<Rightarrow> nat \<Rightarrow> nat \<Rightarrow> elf_file \<Rightarrow> error + (elf_file \<times> nat)" where
  "writeReplacedSections c curOff startAddr startOffset st =
     bindE (if clobberOldSections c then foldE (clobber_section c) (replacedSections st) st
            else Inr st) (\<lambda>st1.
     bindE (foldE (write_section c startAddr startOffset) [0..<length (shdrs st1)]
              (st1, curOff, {})) (\<lambda>(st2, curOff2, noted).
     Inr (st2\<lparr>replacedSections := []\<rparr>, curOff2)))"

section \<open>Normalizing the note segments\<close>

fun anyE :: "('a \<Rightarrow> error + bool) \<Rightarrow> 'a list \<Rightarrow> error + bool" where
  "anyE p [] = Inr False"
| "anyE p (x # xs) = bindE (p x) (\<lambda>b. if b then Inr True else anyE p xs)"

text \<open>
  The search for the note section that starts at the current offset: the size of the
  section found and the offset rounded up to its alignment, or size 0 and the offset as
  it was.
\<close>

fun findNote :: "params \<Rightarrow> elf_file \<Rightarrow> nat \<Rightarrow> Elf_Shdr list \<Rightarrow> error + (nat \<times> nat)" where
  "findNote c st curr_off [] = Inr (0, curr_off)"
| "findNote c st curr_off (shdr # rest) =
     (if rd4 st (sh_type shdr) \<noteq> SHT_NOTE then findNote c st curr_off rest
      else if curr_off \<noteq> 0 \<and> rdW c st (sh_addralign shdr) = 0
      then Inl (UndefinedBehaviour ''division by zero'')
      else if rdW c st (sh_offset shdr) \<noteq> roundUp curr_off (rdW c st (sh_addralign shdr))
      then findNote c st curr_off rest
      else Inr (rdW c st (sh_size shdr), roundUp curr_off (rdW c st (sh_addralign shdr))))"

definition note_phdr :: "params \<Rightarrow> elf_file \<Rightarrow> Elf_Phdr \<Rightarrow> nat \<Rightarrow> nat \<Rightarrow> nat \<Rightarrow> Elf_Phdr" where
  "note_phdr c st phdr start_off curr_off n =
     phdr\<lparr>p_offset := wrW c curr_off,
           p_vaddr := wrW c (rdW c st (p_vaddr phdr) + usub 64 curr_off start_off),
           p_paddr := wrW c (rdW c st (p_paddr phdr) + usub 64 curr_off start_off),
           p_filesz := wrW c n,
           p_memsz := wrW c n\<rparr>"

text \<open>
  The walk over one \<^verbatim>\<open>PT_NOTE\<close> segment. The offsets are \<^verbatim>\<open>size_t\<close> and wrap around, so the
  loop need not end: \<open>None\<close> is the run that does not return.
\<close>

partial_function (option) noteWalk ::
  "params \<Rightarrow> elf_file \<Rightarrow> nat \<Rightarrow> nat \<Rightarrow> Elf_Phdr \<Rightarrow> Elf_Phdr list \<Rightarrow> nat \<Rightarrow>
   (error + Elf_Phdr \<times> Elf_Phdr list) option" where
  "noteWalk c st start_off end_off phdr newPhdrs curr_off =
     (if curr_off < end_off then
        (case findNote c st curr_off (shdrs st) of
           Inl e \<Rightarrow> Some (Inl e)
         | Inr (n, curr_off1) \<Rightarrow>
             if n = 0
             then Some (Inl (Error ''cannot normalize PT_NOTE segment: non-contiguous SHT_NOTE sections''))
             else if u64 (curr_off1 + n) > end_off
             then Some (Inl (Error ''cannot normalize PT_NOTE segment: partially mapped SHT_NOTE section''))
             else
               (let new_phdr = note_phdr c st phdr start_off curr_off1 n in
                if curr_off1 = start_off
                then noteWalk c st start_off end_off new_phdr newPhdrs (u64 (curr_off1 + n))
                else noteWalk c st start_off end_off phdr (newPhdrs @ [new_phdr])
                       (u64 (curr_off1 + n))))
      else Some (Inr (phdr, newPhdrs)))"

fun noteSegments ::
  "params \<Rightarrow> elf_file \<Rightarrow> nat list \<Rightarrow> Elf_Phdr list \<Rightarrow> Elf_Phdr list \<Rightarrow>
   (error + Elf_Phdr list \<times> Elf_Phdr list) option" where
  "noteSegments c st [] phs newPhdrs = Some (Inr (phs, newPhdrs))"
| "noteSegments c st (k # ks) phs newPhdrs =
     (let phdr = phs ! k in
      if rd4 st (p_type phdr) \<noteq> PT_NOTE then noteSegments c st ks phs newPhdrs
      else
        let start_off = rdW c st (p_offset phdr);
            end_off = u64 (start_off + rdW c st (p_filesz phdr))
        in if list_all (\<lambda>shdr. \<not> (rdW c st (sh_offset shdr) \<ge> start_off
                                    \<and> rdW c st (sh_offset shdr) < end_off)) (shdrs st)
           then noteSegments c st ks phs newPhdrs
           else
             (case noteWalk c st start_off end_off phdr newPhdrs start_off of
                None \<Rightarrow> None
              | Some (Inl e) \<Rightarrow> Some (Inl e)
              | Some (Inr (phdr', newPhdrs')) \<Rightarrow>
                  noteSegments c st ks (phs[k := phdr']) newPhdrs'))"

definition normalizeNoteSegments :: "params \<Rightarrow> elf_file \<Rightarrow> (error + elf_file) option" where
  "normalizeNoteSegments c st =
     (case anyE (\<lambda>entry. bindE (findSectionHeader c st (fst entry))
                   (\<lambda>shdr. Inr (rd4 st (sh_type shdr) = SHT_NOTE))) (replacedSections st) of
        Inl e \<Rightarrow> Some (Inl e)
      | Inr replaced_note \<Rightarrow>
          if \<not> replaced_note then Some (Inr st)
          else
            (case noteSegments c st [0..<length (phdrs st)] (phdrs st) [] of
               None \<Rightarrow> None
             | Some (Inl e) \<Rightarrow> Some (Inl e)
             | Some (Inr (phs, newPhdrs)) \<Rightarrow>
                 Some (set_e_phnum c (length (phs @ newPhdrs)) (st\<lparr>phdrs := phs @ newPhdrs\<rparr>))))"

section \<open>Rewriting the headers\<close>

definition e_phoff_raw :: "params \<Rightarrow> elf_file \<Rightarrow> nat" where
  "e_phoff_raw c st =
     (if is32Bit c then field (fileContents st) 28 4 else field (fileContents st) 32 8)"

fun update_PT_PHDR :: "params \<Rightarrow> elf_file \<Rightarrow> nat \<Rightarrow> Elf_Phdr list \<Rightarrow> Elf_Phdr list" where
  "update_PT_PHDR c st phdrAddress [] = []"
| "update_PT_PHDR c st phdrAddress (phdr # rest) =
     (if rd4 st (p_type phdr) = PT_PHDR then
        phdr\<lparr>p_offset := e_phoff_raw c st,
              p_paddr := wrW c phdrAddress,
              p_vaddr := wrW c (wrW c phdrAddress),
              p_memsz := wrW c (u64 (length (phdrs st) * sizeof_Phdr c)),
              p_filesz := wrW c (wrW c (u64 (length (phdrs st) * sizeof_Phdr c)))\<rparr> # rest
      else phdr # update_PT_PHDR c st phdrAddress rest)"

definition write_phdr :: "params \<Rightarrow> nat \<Rightarrow> elf_file \<Rightarrow> error + elf_file" where
  "write_phdr c i st =
     bindE (vec_at (phdrs st) i) (\<lambda>phdr.
     bindE (store (fileContents st) (e_phoff c st + i * sizeof_Phdr c) (encode_Phdr c phdr)) (\<lambda>fc.
     Inr (st\<lparr>fileContents := fc\<rparr>)))"

definition write_shdr :: "params \<Rightarrow> nat \<Rightarrow> elf_file \<Rightarrow> error + elf_file" where
  "write_shdr c i st =
     bindE (vec_at (shdrs st) i) (\<lambda>shdr.
     bindE (store (fileContents st) (e_shoff c st + i * sizeof_Shdr c) (encode_Shdr c shdr)) (\<lambda>fc.
     Inr (st\<lparr>fileContents := fc\<rparr>)))"

text \<open>
  An entry of the dynamic table is \<^verbatim>\<open>d_tag\<close> followed by the union \<^verbatim>\<open>d_un\<close>, both of class
  width; \<open>dyn\<close> is the offset of the entry in the buffer.
\<close>

definition set_d_un :: "params \<Rightarrow> nat \<Rightarrow> nat \<Rightarrow> elf_file \<Rightarrow> error + elf_file" where
  "set_d_un c dyn v st =
     bindE (store (fileContents st) (dyn + sizeof_Off c) (le_encode (sizeof_Off c) v)) (\<lambda>fc.
     Inr (st\<lparr>fileContents := fc\<rparr>))"

definition set_d_un_addr :: "params \<Rightarrow> nat \<Rightarrow> string \<Rightarrow> elf_file \<Rightarrow> error + elf_file" where
  "set_d_un_addr c dyn sectionName st =
     bindE (findSectionHeader c st sectionName) (\<lambda>shdr. set_d_un c dyn (sh_addr shdr) st)"

definition dyn_entry ::
  "params \<Rightarrow> Elf_Shdr \<Rightarrow> nat \<Rightarrow> nat \<Rightarrow> nat \<Rightarrow> elf_file \<Rightarrow> error + elf_file" where
  "dyn_entry c shdrDynamic dyn_table dyn d_tag st =
     (if d_tag = DT_STRTAB then set_d_un_addr c dyn ''.dynstr'' st
      else if d_tag = DT_STRSZ then
        bindE (findSectionHeader c st ''.dynstr'') (\<lambda>shdr. set_d_un c dyn (sh_size shdr) st)
      else if d_tag = DT_SYMTAB then set_d_un_addr c dyn ''.dynsym'' st
      else if d_tag = DT_HASH then set_d_un_addr c dyn ''.hash'' st
      else if d_tag = DT_GNU_HASH then
        bindE (tryFindSectionHeader c st ''.gnu.hash'') (\<lambda>shdr.
        case shdr of Some sh \<Rightarrow> set_d_un c dyn (sh_addr sh) st | None \<Rightarrow> Inr st)
      else if d_tag = DT_MIPS_XHASH then set_d_un_addr c dyn ''.MIPS.xhash'' st
      else if d_tag = DT_JMPREL then
        bindE (tryFindSectionHeader c st ''.rel.plt'') (\<lambda>s1.
        bindE (case s1 of None \<Rightarrow> tryFindSectionHeader c st ''.rela.plt'' | Some _ \<Rightarrow> Inr s1) (\<lambda>s2.
        bindE (case s2 of None \<Rightarrow> tryFindSectionHeader c st ''.rela.IA_64.pltoff''
               | Some _ \<Rightarrow> Inr s2) (\<lambda>s3.
        case s3 of
          None \<Rightarrow> Inl (Error ''cannot find section corresponding to DT_JMPREL'')
        | Some sh \<Rightarrow> set_d_un c dyn (sh_addr sh) st)))
      else if d_tag = DT_REL then
        bindE (tryFindSectionHeader c st ''.rel.dyn'') (\<lambda>s1.
        bindE (case s1 of None \<Rightarrow> tryFindSectionHeader c st ''.rel.got'' | Some _ \<Rightarrow> Inr s1) (\<lambda>s2.
        case s2 of None \<Rightarrow> Inr st | Some sh \<Rightarrow> set_d_un c dyn (sh_addr sh) st))
      else if d_tag = DT_RELA then
        bindE (tryFindSectionHeader c st ''.rela.dyn'') (\<lambda>s1.
        case s1 of None \<Rightarrow> Inr st | Some sh \<Rightarrow> set_d_un c dyn (sh_addr sh) st)
      else if d_tag = DT_VERNEED then set_d_un_addr c dyn ''.gnu.version_r'' st
      else if d_tag = DT_VERSYM then set_d_un_addr c dyn ''.gnu.version'' st
      else if d_tag = DT_MIPS_RLD_MAP_REL then
        bindE (tryFindSectionHeader c st ''.rld_map'') (\<lambda>s1.
        case s1 of
          Some _ \<Rightarrow>
            bindE (findSectionHeader c st ''.rld_map'') (\<lambda>sh.
            set_d_un c dyn
              (usub (wbits c) (usub (wbits c) (sh_addr sh) (dyn - dyn_table)) (sh_addr shdrDynamic))
              st)
        | None \<Rightarrow>
            set_d_un c dyn 0 (st\<lparr>stderr := stderr st @ [RldMapSectionMissing]\<rparr>))
      else Inr st)"

lemma store_length: "store buf off bs = Inr buf' \<Longrightarrow> length buf' = length buf"
  by (auto simp: store_def split: if_splits)

lemma set_d_un_length:
  "set_d_un c dyn v st = Inr st' \<Longrightarrow> length (fileContents st') = length (fileContents st)"
  by (auto simp: set_d_un_def bindE_eq_Inr dest: store_length)

lemma set_d_un_addr_length:
  "set_d_un_addr c dyn n st = Inr st' \<Longrightarrow> length (fileContents st') = length (fileContents st)"
  by (auto simp: set_d_un_addr_def bindE_eq_Inr dest: set_d_un_length)

lemma dyn_entry_length:
  assumes "dyn_entry c shdrDynamic dyn_table dyn d_tag st = Inr st'"
  shows "length (fileContents st') = length (fileContents st)"
proof -
  have rld: "set_d_un c dyn v (st\<lparr>stderr := w\<rparr>) = Inr st'
      \<Longrightarrow> length (fileContents st') = length (fileContents st)" for v w
    using set_d_un_length [of c dyn v "st\<lparr>stderr := w\<rparr>" st'] by simp
  from assms show ?thesis
    unfolding dyn_entry_def
    by (auto simp: bindE_eq_Inr split: if_splits option.splits
        dest: set_d_un_length set_d_un_addr_length rld)
qed

function dynLoop :: "params \<Rightarrow> Elf_Shdr \<Rightarrow> nat \<Rightarrow> nat \<Rightarrow> elf_file \<Rightarrow> error + elf_file" where
  "dynLoop c shdrDynamic dyn_table dyn st =
     (if dyn + sizeof_Off c > length (fileContents st)
      then Inl (UndefinedBehaviour ''read outside the buffer'')
      else
        let d_tag = u32 (rdW c st (field (fileContents st) dyn (sizeof_Off c))) in
        if d_tag = DT_NULL then Inr st
        else bindE (dyn_entry c shdrDynamic dyn_table dyn d_tag st) (\<lambda>st'.
             dynLoop c shdrDynamic dyn_table (dyn + sizeof_Dyn c) st'))"
  by pat_completeness auto
termination
proof (relation "measure (\<lambda>(c, shdrDynamic, dyn_table, dyn, st). length (fileContents st) - dyn)")
  show "wf (measure (\<lambda>(c, shdrDynamic, dyn_table, dyn, st). length (fileContents st) - dyn))"
    by simp
next
  fix c :: params and shdrDynamic :: Elf_Shdr and dyn_table dyn :: nat and st :: elf_file
    and d_tag :: nat and st' :: elf_file
  assume inb: "\<not> length (fileContents st) < dyn + sizeof_Off c"
    and tag: "d_tag = u32 (rdW c st (field (fileContents st) dyn (sizeof_Off c)))"
    and step: "dyn_entry c shdrDynamic dyn_table dyn d_tag st = Inr st'"
  from step have "length (fileContents st') = length (fileContents st)"
    by (rule dyn_entry_length)
  moreover have "0 < sizeof_Off c" "0 < sizeof_Dyn c"
    by (simp_all add: sizeof_Off_def sizeof_Dyn_def)
  ultimately show "((c, shdrDynamic, dyn_table, dyn + sizeof_Dyn c, st'),
      (c, shdrDynamic, dyn_table, dyn, st))
      \<in> measure (\<lambda>(c, shdrDynamic, dyn_table, dyn, st). length (fileContents st) - dyn)"
    using inb by simp
qed

declare dynLoop.simps [simp del]

definition st_value_off :: "params \<Rightarrow> nat" where
  "st_value_off c = (if is32Bit c then 4 else 8)"

definition st_info_off :: "params \<Rightarrow> nat" where
  "st_info_off c = (if is32Bit c then 12 else 4)"

definition st_shndx_off :: "params \<Rightarrow> nat" where
  "st_shndx_off c = (if is32Bit c then 14 else 6)"

text \<open>
  The body of the loop over the entries of one symbol table: \<open>i\<close> is the index of the
  table's section, \<open>entry\<close> the index of the symbol.
\<close>

definition rewrite_symbol :: "params \<Rightarrow> nat \<Rightarrow> nat \<Rightarrow> elf_file \<Rightarrow> error + elf_file" where
  "rewrite_symbol c i entry st =
     bindE (vec_at (shdrs st) i) (\<lambda>shdr.
     let sym = rdW c st (sh_offset shdr) + entry * sizeof_Sym c in
     bindE (load (fileContents st) (sym + st_shndx_off c) 2) (\<lambda>raw_shndx.
     let shndx = rd2 st (le_decode raw_shndx) in
     if shndx \<noteq> SHN_UNDEF \<and> shndx < SHN_LORESERVE then
       if shndx \<ge> length (sectionsByOldIndex st)
       then Inr (st\<lparr>stderr := stderr st @ [SymbolRefersToNonExistentSection shndx]\<rparr>)
       else
         let section = sectionsByOldIndex st ! shndx in
         bindE (assertE (section \<noteq> []) ''!section.empty()'') (\<lambda>_.
         bindE (getSectionIndex c st section) (\<lambda>newIndex.
         bindE (store (fileContents st) (sym + st_shndx_off c) (le_encode 2 newIndex)) (\<lambda>fc1.
         let st1 = st\<lparr>fileContents := fc1\<rparr> in
         bindE (load fc1 (sym + st_info_off c) 1) (\<lambda>raw_info.
         if rdi (littleEndian st1) 1 (le_decode raw_info) mod 16 = STT_SECTION then
           bindE (vec_at (shdrs st1) newIndex) (\<lambda>target.
           bindE (store fc1 (sym + st_value_off c)
                    (le_encode (sizeof_Off c) (rdW c st1 (sh_addr target)))) (\<lambda>fc2.
           Inr (st1\<lparr>fileContents := fc2\<rparr>)))
         else Inr st1))))
     else Inr st))"

definition rewrite_symtab :: "params \<Rightarrow> nat \<Rightarrow> elf_file \<Rightarrow> error + elf_file" where
  "rewrite_symtab c i st =
     bindE (vec_at (shdrs st) i) (\<lambda>shdr.
     if rd4 st (sh_type shdr) \<noteq> SHT_SYMTAB \<and> rd4 st (sh_type shdr) \<noteq> SHT_DYNSYM then Inr st
     else foldE (rewrite_symbol c i) [0..<rdW c st (sh_size shdr) div sizeof_Sym c] st)"

definition rewriteHeaders :: "params \<Rightarrow> nat \<Rightarrow> elf_file \<Rightarrow> error + elf_file" where
  "rewriteHeaders c phdrAddress st =
     (let st1 = st\<lparr>phdrs := update_PT_PHDR c st phdrAddress (phdrs st)\<rparr>;
          st2 = (if \<not> noSort c then sortPhdrs c st1 else st1)
      in
      bindE (foldE (write_phdr c) [0..<length (phdrs st2)] st2) (\<lambda>st3.
      bindE (assertE (e_shnum c st3 = length (shdrs st3)) ''rdi(hdr()->e_shnum) == shdrs.size()'') (\<lambda>_.
      bindE (if \<not> noSort c then sortShdrs c st3 else Inr st3) (\<lambda>st4.
      bindE (for_shnum c (write_shdr c) 1 st4) (\<lambda>st5.
      bindE (tryFindSectionHeader c st5 ''.dynamic'') (\<lambda>shdrDynamic.
      bindE (case shdrDynamic of
               None \<Rightarrow> Inr st5
             | Some sd \<Rightarrow> dynLoop c sd (rdW c st5 (sh_offset sd)) (rdW c st5 (sh_offset sd)) st5) (\<lambda>st6.
      for_shnum c (rewrite_symtab c) 1 st6)))))))"

section \<open>The library strategy\<close>

definition int_mul :: "nat \<Rightarrow> nat \<Rightarrow> error + nat" where
  "int_mul a b =
     (if a * b < 2 ^ 31 then Inr (a * b) else Inl (UndefinedBehaviour ''signed integer overflow''))"

text \<open>The loop over the program headers: \<open>(startPage, firstPage, alignStartPage)\<close>.\<close>

definition library_pages :: "params \<Rightarrow> elf_file \<Rightarrow> nat \<times> nat \<times> nat" where
  "library_pages c st =
     foldl (\<lambda>(startPage, firstPage, alignStartPage) phdr.
        let thisPage = (rdW c st (p_vaddr phdr) + rdW c st (p_memsz phdr)) mod 2 ^ wbits c in
        (if thisPage > startPage then thisPage else startPage,
         if rd4 st (p_type phdr) = PT_PHDR
         then usub (wbits c) (rdW c st (p_vaddr phdr)) (rdW c st (p_offset phdr)) else firstPage,
         max alignStartPage (u32 (rdW c st (p_align phdr)))))
       (0, 0, getPageSize c st) (phdrs st)"

definition phtSize :: "params \<Rightarrow> elf_file \<Rightarrow> nat" where
  "phtSize c st =
     roundUp (u64 ((length (phdrs st)
                    + u32 (length (filter (\<lambda>shdr. rd4 st (sh_type shdr) = SHT_NOTE) (shdrs st)))
                    + 1) * sizeof_Phdr c + sizeof_Ehdr c))
       (sectionAlignment c)"

definition shtSize :: "params \<Rightarrow> elf_file \<Rightarrow> error + nat" where
  "shtSize c st =
     bindE (int_mul (e_shnum c st) (e_shentsize c st)) (\<lambda>n. Inr (roundUp n (sectionAlignment c)))"

function relocatePht :: "params \<Rightarrow> elf_file \<Rightarrow> nat \<Rightarrow> nat \<Rightarrow> error + bool" where
  "relocatePht c st phtSz i =
     (if i < e_shnum c st then
        bindE (vec_at (shdrs st) i) (\<lambda>shdr.
        if s64 (rdW c st (sh_offset shdr)) \<le> s64 phtSz then
          bindE (getSectionName st shdr) (\<lambda>sectionName.
          if \<not> hasReplacedSection st sectionName then
            bindE (canReplaceSection c st sectionName) (\<lambda>can.
            if \<not> can then Inr True else relocatePht c st phtSz (Suc i))
          else relocatePht c st phtSz (Suc i))
        else Inr False)
      else Inr False)"
  by pat_completeness auto
termination
  by (relation "measure (\<lambda>(c, st, phtSz, i). e_shnum c st - i)") auto

declare relocatePht.simps [simp del]

function replaceInFootprint :: "params \<Rightarrow> nat \<Rightarrow> nat \<Rightarrow> elf_file \<Rightarrow> error + elf_file" where
  "replaceInFootprint c phtSz i st =
     (if i < e_shnum c st then
        bindE (vec_at (shdrs st) i) (\<lambda>shdr.
        if s64 (rdW c st (sh_offset shdr)) \<le> s64 phtSz then
          bindE (getSectionName st shdr) (\<lambda>sectionName.
          bindE (if \<not> hasReplacedSection st sectionName
                 then replaceSection c st sectionName (u32 (rdW c st (sh_size shdr)))
                 else Inr st) (\<lambda>st'.
          replaceInFootprint c phtSz (Suc i) st'))
        else Inr st)
      else Inr st)"
  by pat_completeness auto
termination
proof (relation "measure (\<lambda>(c, phtSz, i, st). 65536 - i)")
  show "wf (measure (\<lambda>(c, phtSz, i, st). 65536 - i))"
    by simp
next
  fix c :: params and phtSz i :: nat and st st' :: elf_file
  assume "i < e_shnum c st"
  with e_shnum_bound [of c st] have "i < 65536"
    by simp
  then show "((c, phtSz, Suc i, st'), (c, phtSz, i, st)) \<in> measure (\<lambda>(c, phtSz, i, st). 65536 - i)"
    by simp
qed

declare replaceInFootprint.simps [simp del]

definition edits_space :: "params \<Rightarrow> elf_file \<Rightarrow> nat" where
  "edits_space c st =
     sum_list (map (\<lambda>entry. roundUp (length (snd entry)) (sectionAlignment c)) (replacedSections st))"

text \<open>
  The first part of the library strategy, up to the growth of the buffer: the state with
  the sections in the footprint of the program header table scheduled and the buffer
  resized, and \<open>(relocate, phtSz, shtSz, neededSpace, startOffset, startPage, firstPage,
  alignStartPage)\<close>.
\<close>

definition library_layout ::
  "params \<Rightarrow> elf_file \<Rightarrow>
   error + (elf_file \<times> bool \<times> nat \<times> nat \<times> nat \<times> nat \<times> nat \<times> nat \<times> nat)" where
  "library_layout c st =
     (let (startPage0, firstPage, alignStartPage) = library_pages c st;
          startPage = roundUp startPage0 alignStartPage mod 2 ^ wbits c;
          phtSz = phtSize c st
      in
      bindE (shtSize c st) (\<lambda>shtSz.
      bindE (relocatePht c st phtSz 1) (\<lambda>relocate.
      bindE (if \<not> relocate then replaceInFootprint c phtSz 1 st else Inr st) (\<lambda>st1.
      let neededSpace = u64 (shtSz + (if relocate then phtSz else 0) + edits_space c st1);
          startOffset = roundUp (length (fileContents st1)) alignStartPage mod 2 ^ wbits c
      in
      bindE (resize_bytes (fileContents st1) (u64 (startOffset + neededSpace + 1))) (\<lambda>fc.
      Inr (st1\<lparr>fileContents := fc\<rparr>, relocate, phtSz, shtSz, neededSpace, startOffset,
           startPage, firstPage, alignStartPage))))))"

text \<open>
  The second part: the last segment is taken by \<^verbatim>\<open>phdrs.back()\<close> before the test for an
  empty table; it is extended, or a new \<^verbatim>\<open>PT_LOAD\<close> is appended. The result is the state
  and \<open>lastSegAddr\<close>.
\<close>

definition library_segment ::
  "params \<Rightarrow> nat \<Rightarrow> nat \<Rightarrow> nat \<Rightarrow> nat \<Rightarrow> elf_file \<Rightarrow> error + (elf_file \<times> nat)" where
  "library_segment c neededSpace startOffset startPage alignStartPage st =
     bindE (if phdrs st = [] then Inl (UndefinedBehaviour ''back() of an empty vector'')
            else Inr (last (phdrs st))) (\<lambda>lastSeg.
     let extend =
           (phdrs st \<noteq> []
            \<and> rd4 st (p_type lastSeg) = PT_LOAD
            \<and> rd4 st (p_flags lastSeg) = PF_R + PF_W
            \<and> rdW c st (p_align lastSeg) = alignStartPage
            \<and> roundUp ((rdW c st (p_offset lastSeg) + rdW c st (p_memsz lastSeg)) mod 2 ^ wbits c)
                 alignStartPage = startOffset);
         newSz = usub 64 (u64 (startOffset + neededSpace)) (rdW c st (p_offset lastSeg));
         lastSeg' = lastSeg\<lparr>p_memsz := wrW c newSz, p_filesz := wrW c (wrW c newSz)\<rparr>;
         st1 = (if extend then st\<lparr>phdrs := butlast (phdrs st) @ [lastSeg']\<rparr> else st);
         lastSegAddr =
           (if extend
            then usub (wbits c) (rdW c st (p_vaddr lastSeg') + newSz) neededSpace
            else 0)
     in
     if lastSegAddr = 0 then
       bindE (set_e_phnum c (e_phnum c st1 + 1)
                (st1\<lparr>phdrs := vec_resize (phdrs st1) (e_phnum c st1 + 1) zero_Phdr\<rparr>)) (\<lambda>st2.
       if e_phnum c st2 = 0 \<or> e_phnum c st2 - 1 \<ge> length (phdrs st2) then Inl OutOfRange
       else
         let last_i = e_phnum c st2 - 1;
             phdr = (phdrs st2 ! last_i)\<lparr>
                      p_type := wri 4 PT_LOAD,
                      p_offset := wrW c startOffset,
                      p_paddr := wrW c startPage,
                      p_vaddr := wrW c (wrW c startPage),
                      p_memsz := wrW c neededSpace,
                      p_filesz := wrW c (wrW c neededSpace),
                      p_flags := wri 4 (PF_R + PF_W),
                      p_align := wrW c alignStartPage\<rparr>
         in
         bindE (assertE (startPage mod alignStartPage = startOffset mod alignStartPage)
                  ''startPage % alignStartPage == startOffset % alignStartPage'') (\<lambda>_.
         Inr (st2\<lparr>phdrs := (phdrs st2)[last_i := phdr]\<rparr>, startPage)))
     else Inr (st1, lastSegAddr))"

text \<open>The third part: the tables and the replaced sections are written out.\<close>

definition library_write ::
  "params \<Rightarrow> bool \<Rightarrow> nat \<Rightarrow> nat \<Rightarrow> nat \<Rightarrow> nat \<Rightarrow> nat \<Rightarrow> nat \<Rightarrow> nat \<Rightarrow> elf_file \<Rightarrow>
   error + elf_file" where
  "library_write c relocate phtSz shtSz neededSpace startOffset startPage firstPage lastSegAddr st =
     bindE (if relocate
            then bindE (set_e_phoff c startOffset st) (\<lambda>s.
                 Inr (s, (startOffset + phtSz) mod 2 ^ wbits c))
            else Inr (st, startOffset)) (\<lambda>(st1, curOff1).
     bindE (set_e_shoff c curOff1 st1) (\<lambda>st2.
     bindE (writeReplacedSections c ((curOff1 + shtSz) mod 2 ^ wbits c) startPage startOffset st2)
       (\<lambda>(st3, curOff).
     bindE (assertE (if is32Bit c then int curOff = s64 (startOffset + neededSpace)
                     else curOff = u64 (startOffset + neededSpace))
              ''curOff == startOffset + neededSpace'') (\<lambda>_.
     if relocate then rewriteHeaders c lastSegAddr st3
     else rewriteHeaders c ((firstPage + e_phoff c st3) mod 2 ^ wbits c) st3))))"

definition rewriteSectionsLibrary :: "params \<Rightarrow> elf_file \<Rightarrow> (error + elf_file) option" where
  "rewriteSectionsLibrary c st =
     (case library_layout c st of
        Inl e \<Rightarrow> Some (Inl e)
      | Inr (st1, relocate, phtSz, shtSz, neededSpace, startOffset, startPage, firstPage,
             alignStartPage) \<Rightarrow>
          (case library_segment c neededSpace startOffset startPage alignStartPage st1 of
             Inl e \<Rightarrow> Some (Inl e)
           | Inr (st2, lastSegAddr) \<Rightarrow>
               (case normalizeNoteSegments c st2 of
                  None \<Rightarrow> None
                | Some (Inl e) \<Rightarrow> Some (Inl e)
                | Some (Inr st3) \<Rightarrow>
                    Some (library_write c relocate phtSz shtSz neededSpace startOffset startPage
                            firstPage lastSegAddr st3))))"

section \<open>The executable strategy\<close>

text \<open>
  The walk over the sections up to the last replaced one. The result is the state and
  \<open>(startOffset, startAddr, lastReplaced)\<close>.
\<close>

function replaceInTheWay ::
  "params \<Rightarrow> nat \<Rightarrow> nat \<Rightarrow> string \<Rightarrow> nat \<Rightarrow> nat \<Rightarrow> elf_file \<Rightarrow>
   error + (elf_file \<times> nat \<times> nat \<times> nat)" where
  "replaceInTheWay c i lastReplaced prevSection startOffset startAddr st =
     (if i \<le> lastReplaced then
        bindE (vec_at (shdrs st) i) (\<lambda>shdr.
        bindE (getSectionName st shdr) (\<lambda>sectionName.
        if (rd4 st (sh_type shdr) = SHT_PROGBITS \<and> sectionName \<noteq> ''.interp'')
           \<or> prevSection = ''.dynstr''
        then Inr (st, rdW c st (sh_offset shdr), rdW c st (sh_addr shdr), i - 1)
        else
          bindE (if \<not> hasReplacedSection st sectionName
                 then replaceSection c st sectionName (u32 (rdW c st (sh_size shdr)))
                 else Inr st) (\<lambda>st'.
          replaceInTheWay c (Suc i) lastReplaced sectionName startOffset startAddr st')))
      else Inr (st, startOffset, startAddr, lastReplaced))"
  by pat_completeness auto
termination
  by (relation "measure (\<lambda>(c, i, lastReplaced, prevSection, startOffset, startAddr, st).
        Suc lastReplaced - i)") auto

declare replaceInTheWay.simps [simp del]

definition lastReplacedSection :: "params \<Rightarrow> elf_file \<Rightarrow> error + nat" where
  "lastReplacedSection c st =
     foldE (\<lambda>i lastReplaced.
        bindE (vec_at (shdrs st) i) (\<lambda>shdr.
        bindE (getSectionName st shdr) (\<lambda>sectionName.
        Inr (if hasReplacedSection st sectionName then i else lastReplaced))))
       [1..<e_shnum c st] 0"

definition moveSectionHeaders :: "params \<Rightarrow> elf_file \<Rightarrow> error + elf_file" where
  "moveSectionHeaders c st =
     (let shoffNew = length (fileContents st) in
      bindE (int_mul (e_shnum c st) (e_shentsize c st)) (\<lambda>n.
      let shSize = (e_shoff c st + n) mod 2 ^ wbits c in
      bindE (resize_bytes (fileContents st) (u64 (length (fileContents st) + shSize))) (\<lambda>fc.
      bindE (set_e_shoff c shoffNew (st\<lparr>fileContents := fc\<rparr>)) (\<lambda>st1.
      bindE (assertE (e_shnum c st1 = length (shdrs st1))
               ''rdi(hdr()->e_shnum) == shdrs.size()'') (\<lambda>_.
      bindE (sortShdrs c st1) (\<lambda>st2.
      for_shnum c (write_shdr c) 1 st2))))))"

fun cover_phdrs :: "params \<Rightarrow> elf_file \<Rightarrow> nat \<Rightarrow> nat \<Rightarrow> Elf_Phdr list \<Rightarrow> Elf_Phdr list" where
  "cover_phdrs c st curOff neededSpace [] = []"
| "cover_phdrs c st curOff neededSpace (phdr # rest) =
     (if rd4 st (p_type phdr) = PT_LOAD
         \<and> rdW c st (p_offset phdr) \<le> curOff
         \<and> (rdW c st (p_offset phdr) + rdW c st (p_filesz phdr)) mod 2 ^ wbits c > curOff
         \<and> rdW c st (p_filesz phdr) < neededSpace
      then phdr\<lparr>p_filesz := wrW c neededSpace, p_memsz := wrW c neededSpace\<rparr> # rest
      else phdr # cover_phdrs c st curOff neededSpace rest)"

text \<open>
  The first part of the executable strategy, up to the normalization of the notes: the
  state and \<open>(startOffset, firstPage)\<close>.
\<close>

definition executable_layout :: "params \<Rightarrow> elf_file \<Rightarrow> error + (elf_file \<times> nat \<times> nat)" where
  "executable_layout c st =
     bindE (if \<not> noSort c then sortShdrs c st else Inr st) (\<lambda>st1.
     bindE (lastReplacedSection c st1) (\<lambda>lastReplaced.
     bindE (assertE (lastReplaced \<noteq> 0) ''lastReplaced != 0'') (\<lambda>_.
     bindE (assertE (lastReplaced + 1 < length (shdrs st1)) ''lastReplaced + 1 < shdrs.size()'') (\<lambda>_.
     bindE (vec_at (shdrs st1) (lastReplaced + 1)) (\<lambda>next.
     bindE (replaceInTheWay c 1 lastReplaced [] (rdW c st1 (sh_offset next))
              (rdW c st1 (sh_addr next)) st1) (\<lambda>(st2, startOffset, startAddr, lastReplaced2).
     bindE (assertE (startAddr mod getPageSize c st2 = startOffset mod getPageSize c st2)
              ''startAddr % getPageSize() == startOffset % getPageSize()'') (\<lambda>_.
     bindE (if e_shoff c st2 < startOffset then moveSectionHeaders c st2 else Inr st2) (\<lambda>st3.
     Inr (st3, startOffset, usub (wbits c) startAddr startOffset)))))))))"

text \<open>The second part, after the normalization of the notes.\<close>

definition executable_write :: "params \<Rightarrow> nat \<Rightarrow> nat \<Rightarrow> elf_file \<Rightarrow> error + elf_file" where
  "executable_write c startOffset0 firstPage0 st =
     (let neededSpace0 = u64 (sizeof_Ehdr c + length (phdrs st) * sizeof_Phdr c + edits_space c st) in
      bindE (if neededSpace0 > startOffset0 then
               (let neededSpace = u64 (neededSpace0 + sizeof_Phdr c);
                    extraSpace = usub 64 neededSpace startOffset0;
                    neededPages = u32 (1 + roundUp extraSpace (getPageSize c st) div getPageSize c st)
                in if u32 (neededPages * getPageSize c st) > firstPage0
                   then Inl (Error ''virtual address space underrun!'')
                   else
                     bindE (shiftFile c neededPages startOffset0 extraSpace st) (\<lambda>st1.
                     Inr (st1, neededSpace,
                          usub (wbits c) firstPage0 (u32 (neededPages * getPageSize c st1)),
                          u64 (startOffset0 + u32 (neededPages * getPageSize c st1)))))
             else Inr (st, neededSpace0, firstPage0, startOffset0))
        (\<lambda>(st1, neededSpace, firstPage, startOffset).
      let curOff = (sizeof_Ehdr c + length (phdrs st1) * sizeof_Phdr c) mod 2 ^ wbits c;
          st2 = st1\<lparr>phdrs := cover_phdrs c st1 curOff neededSpace (phdrs st1)\<rparr>
      in
      bindE (store (fileContents st2) curOff (replicate (usub 64 startOffset curOff) (CHR 0x00))) (\<lambda>fc.
      bindE (writeReplacedSections c curOff firstPage 0 (st2\<lparr>fileContents := fc\<rparr>))
        (\<lambda>(st3, curOff3).
      bindE (assertE (curOff3 = neededSpace) ''curOff == neededSpace'') (\<lambda>_.
      rewriteHeaders c ((firstPage + e_phoff c st3) mod 2 ^ wbits c) st3)))))"

definition rewriteSectionsExecutable :: "params \<Rightarrow> elf_file \<Rightarrow> (error + elf_file) option" where
  "rewriteSectionsExecutable c st =
     (case executable_layout c st of
        Inl e \<Rightarrow> Some (Inl e)
      | Inr (st1, startOffset, firstPage) \<Rightarrow>
          (case normalizeNoteSegments c st1 of
             None \<Rightarrow> None
           | Some (Inl e) \<Rightarrow> Some (Inl e)
           | Some (Inr st2) \<Rightarrow> Some (executable_write c startOffset firstPage st2)))"

section \<open>Commit\<close>

definition rewriteSections :: "params \<Rightarrow> bool \<Rightarrow> elf_file \<Rightarrow> (error + elf_file) option" where
  "rewriteSections c force st =
     (if \<not> force \<and> replacedSections st = [] then Some (Inr st)
      else if e_type st = ET_DYN then rewriteSectionsLibrary c st
      else if e_type st = ET_EXEC then rewriteSectionsExecutable c st
      else Some (Inl (Error ''unknown ELF type'')))"

section \<open>Relations between states\<close>

text \<open>
  \<open>frame a b\<close>: the step from \<open>a\<close> to \<open>b\<close> keeps the size of the buffer, the pending edits,
  the section names captured at open and the byte order.
\<close>

definition frame :: "elf_file \<Rightarrow> elf_file \<Rightarrow> bool" where
  "frame a b \<longleftrightarrow>
     length (fileContents b) = length (fileContents a)
     \<and> replacedSections b = replacedSections a
     \<and> sectionNames b = sectionNames a
     \<and> sectionsByOldIndex b = sectionsByOldIndex a
     \<and> littleEndian b = littleEndian a"

text \<open>
  \<open>same_file a b\<close>: the two objects hold the same buffer, read in the same byte order, so
  that every field of the ELF header reads the same in both.
\<close>

definition same_file :: "elf_file \<Rightarrow> elf_file \<Rightarrow> bool" where
  "same_file a b \<longleftrightarrow> fileContents b = fileContents a \<and> littleEndian b = littleEndian a"

section \<open>Example images\<close>

text \<open>
  A small 32-bit little-endian shared library (\<^verbatim>\<open>ET_DYN\<close>) of 232 bytes: the ELF header,
  one \<^verbatim>\<open>PT_LOAD\<close> program header at offset 52, the section \<open>.dynstr\<close> at offset 84
  (9 bytes), the section name table at offset 93 (19 bytes), and three section headers at
  offset 112. It is edited with a page size forced to 16.
\<close>

definition lib_params :: params where
  "lib_params = \<lparr>is32Bit = True, forcedPageSize = 16, noSort = False,
                  clobberOldSections = True, dataAddress = 4096\<rparr>"

definition lib_image :: bytes where
  "lib_image = [
      CHR 0x7F, CHR 0x45, CHR 0x4C, CHR 0x46, CHR 0x01, CHR 0x01, CHR 0x01, CHR 0x00,
      CHR 0x00, CHR 0x00, CHR 0x00, CHR 0x00, CHR 0x00, CHR 0x00, CHR 0x00, CHR 0x00,
      CHR 0x03, CHR 0x00, CHR 0x03, CHR 0x00, CHR 0x01, CHR 0x00, CHR 0x00, CHR 0x00,
      CHR 0x00, CHR 0x00, CHR 0x00, CHR 0x00, CHR 0x34, CHR 0x00, CHR 0x00, CHR 0x00,
      CHR 0x70, CHR 0x00, CHR 0x00, CHR 0x00, CHR 0x00, CHR 0x00, CHR 0x00, CHR 0x00,
      CHR 0x34, CHR 0x00, CHR 0x20, CHR 0x00, CHR 0x01, CHR 0x00, CHR 0x28, CHR 0x00,
      CHR 0x03, CHR 0x00, CHR 0x02, CHR 0x00, CHR 0x01, CHR 0x00, CHR 0x00, CHR 0x00,
      CHR 0x00, CHR 0x00, CHR 0x00, CHR 0x00, CHR 0x00, CHR 0x00, CHR 0x00, CHR 0x00,
      CHR 0x00, CHR 0x00, CHR 0x00, CHR 0x00, CHR 0xE8, CHR 0x00, CHR 0x00, CHR 0x00,
      CHR 0xE8, CHR 0x00, CHR 0x00, CHR 0x00, CHR 0x05, CHR 0x00, CHR 0x00, CHR 0x00,
      CHR 0x10, CHR 0x00, CHR 0x00, CHR 0x00, CHR 0x00, CHR 0x6C, CHR 0x69, CHR 0x62,
      CHR 0x61, CHR 0x2E, CHR 0x73, CHR 0x6F, CHR 0x00, CHR 0x00, CHR 0x2E, CHR 0x64,
      CHR 0x79, CHR 0x6E, CHR 0x73, CHR 0x74, CHR 0x72, CHR 0x00, CHR 0x2E, CHR 0x73,
      CHR 0x68, CHR 0x73, CHR 0x74, CHR 0x72, CHR 0x74, CHR 0x61, CHR 0x62, CHR 0x00,
      CHR 0x00, CHR 0x00, CHR 0x00, CHR 0x00, CHR 0x00, CHR 0x00, CHR 0x00, CHR 0x00,
      CHR 0x00, CHR 0x00, CHR 0x00, CHR 0x00, CHR 0x00, CHR 0x00, CHR 0x00, CHR 0x00,
      CHR 0x00, CHR 0x00, CHR 0x00, CHR 0x00, CHR 0x00, CHR 0x00, CHR 0x00, CHR 0x00,
      CHR 0x00, CHR 0x00, CHR 0x00, CHR 0x00, CHR 0x00, CHR 0x00, CHR 0x00, CHR 0x00,
      CHR 0x00, CHR 0x00, CHR 0x00, CHR 0x00, CHR 0x00, CHR 0x00, CHR 0x00, CHR 0x00,
      CHR 0x01, CHR 0x00, CHR 0x00, CHR 0x00, CHR 0x03, CHR 0x00, CHR 0x00, CHR 0x00,
      CHR 0x02, CHR 0x00, CHR 0x00, CHR 0x00, CHR 0x54, CHR 0x00, CHR 0x00, CHR 0x00,
      CHR 0x54, CHR 0x00, CHR 0x00, CHR 0x00, CHR 0x09, CHR 0x00, CHR 0x00, CHR 0x00,
      CHR 0x00, CHR 0x00, CHR 0x00, CHR 0x00, CHR 0x00, CHR 0x00, CHR 0x00, CHR 0x00,
      CHR 0x01, CHR 0x00, CHR 0x00, CHR 0x00, CHR 0x00, CHR 0x00, CHR 0x00, CHR 0x00,
      CHR 0x09, CHR 0x00, CHR 0x00, CHR 0x00, CHR 0x03, CHR 0x00, CHR 0x00, CHR 0x00,
      CHR 0x00, CHR 0x00, CHR 0x00, CHR 0x00, CHR 0x00, CHR 0x00, CHR 0x00, CHR 0x00,
      CHR 0x5D, CHR 0x00, CHR 0x00, CHR 0x00, CHR 0x13, CHR 0x00, CHR 0x00, CHR 0x00,
      CHR 0x00, CHR 0x00, CHR 0x00, CHR 0x00, CHR 0x00, CHR 0x00, CHR 0x00, CHR 0x00,
      CHR 0x01, CHR 0x00, CHR 0x00, CHR 0x00, CHR 0x00, CHR 0x00, CHR 0x00, CHR 0x00]"

definition lib_opened :: elf_file where
  "lib_opened =
     \<lparr>fileContents = lib_image,
      phdrs = [\<lparr>p_type = 1, p_flags = 5, p_offset = 0, p_vaddr = 0, p_paddr = 0,
                p_filesz = 232, p_memsz = 232, p_align = 16\<rparr>],
      shdrs = [\<lparr>sh_name = 0, sh_type = 0, sh_flags = 0, sh_addr = 0, sh_offset = 0,
                sh_size = 0, sh_link = 0, sh_info = 0, sh_addralign = 0, sh_entsize = 0\<rparr>,
               \<lparr>sh_name = 1, sh_type = 3, sh_flags = 2, sh_addr = 84, sh_offset = 84,
                sh_size = 9, sh_link = 0, sh_info = 0, sh_addralign = 1, sh_entsize = 0\<rparr>,
               \<lparr>sh_name = 9, sh_type = 3, sh_flags = 0, sh_addr = 0, sh_offset = 93,
                sh_size = 19, sh_link = 0, sh_info = 0, sh_addralign = 1, sh_entsize = 0\<rparr>],
      littleEndian = True, changed = False, isExecutable = False,
      sectionNames = [CHR 0x00] @ ''.dynstr'' @ [CHR 0x00] @ ''.shstrtab'' @ [CHR 0x00],
      sectionsByOldIndex = [[], ''.dynstr'', ''.shstrtab''],
      replacedSections = [], stderr = []\<rparr>"

text \<open>
  The header of a 64-bit image whose \<^verbatim>\<open>e_phoff\<close> is \<open>2\<^sup>6\<^sup>4 - 1\<close>, with one program header
  of 56 bytes: the end of the table does not fit a \<^verbatim>\<open>size_t\<close>.
\<close>

definition overflow_params :: params where
  "overflow_params = \<lparr>is32Bit = False, forcedPageSize = - 1, noSort = False,
                       clobberOldSections = True, dataAddress = 4096\<rparr>"

definition overflow_image :: bytes where
  "overflow_image = [
      CHR 0x7F, CHR 0x45, CHR 0x4C, CHR 0x46, CHR 0x02, CHR 0x01, CHR 0x01, CHR 0x00,
      CHR 0x00, CHR 0x00, CHR 0x00, CHR 0x00, CHR 0x00, CHR 0x00, CHR 0x00, CHR 0x00,
      CHR 0x03, CHR 0x00, CHR 0x3E, CHR 0x00, CHR 0x01, CHR 0x00, CHR 0x00, CHR 0x00,
      CHR 0x00, CHR 0x00, CHR 0x00, CHR 0x00, CHR 0x00, CHR 0x00, CHR 0x00, CHR 0x00,
      CHR 0xFF, CHR 0xFF, CHR 0xFF, CHR 0xFF, CHR 0xFF, CHR 0xFF, CHR 0xFF, CHR 0xFF,
      CHR 0x40, CHR 0x00, CHR 0x00, CHR 0x00, CHR 0x00, CHR 0x00, CHR 0x00, CHR 0x00,
      CHR 0x00, CHR 0x00, CHR 0x00, CHR 0x00, CHR 0x40, CHR 0x00, CHR 0x38, CHR 0x00,
      CHR 0x01, CHR 0x00, CHR 0x40, CHR 0x00, CHR 0x01, CHR 0x00, CHR 0x00, CHR 0x00]"

text \<open>
  The same library with the size of \<open>.dynstr\<close> set to 255 in its section header: the
  section would end at offset 339, beyond the 232 bytes of the image.
\<close>

definition lib_bad_image :: bytes where
  "lib_bad_image = lib_image[172 := CHR 0xFF]"

definition lib_bad_opened :: elf_file where
  "lib_bad_opened =
     lib_opened\<lparr>fileContents := lib_bad_image,
       shdrs := (shdrs lib_opened)[1 := (shdrs lib_opened ! 1)\<lparr>sh_size := 255\<rparr>]\<rparr>"

text \<open>
  The library above with an empty \<open>.dynstr\<close> (its \<^verbatim>\<open>sh_size\<close> is 0), as the constructor reads
  it, and the object after a forced commit with no edit of the caller's: both sections lie
  in the footprint of the program header table and are moved to the end of the file.
\<close>

definition lib0_image :: bytes where
  "lib0_image = lib_image[172 := CHR 0x00]"

definition lib0_opened :: elf_file where
  "lib0_opened =
     lib_opened\<lparr>fileContents := lib0_image,
       shdrs := (shdrs lib_opened)[1 := (shdrs lib_opened ! 1)\<lparr>sh_size := 0\<rparr>]\<rparr>"



text \<open>
  The library with \<open>e_phnum\<close> set to 0 in its header, and the object the constructor makes
  of it: it has no program header.
\<close>

definition nophdr_image :: bytes where
  "nophdr_image = lib_image[44 := CHR 0x00]"

definition nophdr_opened :: elf_file where
  "nophdr_opened = lib_opened\<lparr>fileContents := nophdr_image, phdrs := []\<rparr>"

section \<open>Evaluation of the model on a concrete image\<close>

lemma le_encode_numeral:
  "le_encode (numeral k) v = char_of (v mod 256) # le_encode (pred_numeral k) (v div 256)"
proof -
  have "numeral k = Suc (pred_numeral k)"
    by (rule numeral_eq_Suc)
  then show ?thesis
    by (simp only: le_encode.simps)
qed

lemma le_encode_1: "le_encode 1 v = [char_of (v mod 256)]"
  by (simp only: One_nat_def le_encode.simps)

lemma le_decode_le_encode: "le_decode (le_encode n v) = v mod 256 ^ n"
proof (induction n arbitrary: v)
  case 0
  show ?case by simp
next
  case (Suc n)
  have "le_decode (le_encode (Suc n) v) = v mod 256 + 256 * (v div 256 mod 256 ^ n)"
    by (simp add: Suc.IH)
  also have "\<dots> = v mod (256 * 256 ^ n)"
    by (simp add: mod_mult2_eq)
  finally show ?case
    by simp
qed

lemma rdi_True: "rdi True n x = x mod 256 ^ n"
  by (simp add: rdi_def le_decode_le_encode)

lemma replicate_numeral: "replicate (numeral k) x = x # replicate (pred_numeral k) x"
  by (simp add: numeral_eq_Suc)

lemma list_update_Cons_numeral: "(x # xs)[numeral k := y] = x # xs[pred_numeral k := y]"
  by (simp add: numeral_eq_Suc)

lemma bindE_weak_cong: "m = m' \<Longrightarrow> bindE m f = bindE m' f"
  by simp

lemmas eval_defs =
  replicate_numeral list_update_Cons_numeral Let_def
  sizeof_Ehdr_def sizeof_Phdr_def sizeof_Shdr_def sizeof_Off_def sizeof_Sym_def sizeof_Dyn_def
  wbits_def sectionAlignment_def ELFMAG_def ELFDATA2LSB_def ET_EXEC_def ET_DYN_def
  PT_LOAD_def PT_DYNAMIC_def PT_INTERP_def PT_NOTE_def PT_PHDR_def PT_GNU_PROPERTY_def
  PT_MIPS_ABIFLAGS_def PF_W_def PF_R_def SHT_PROGBITS_def SHT_SYMTAB_def SHT_RELA_def
  SHT_NOTE_def SHT_NOBITS_def SHT_REL_def SHT_DYNSYM_def SHN_UNDEF_def SHN_LORESERVE_def
  STT_SECTION_def
  field_def decode_Phdr_def decode_Shdr_def encode_Phdr_def encode_Shdr_def
  rdW_def rd4_def rd2_def wrW_def wri_def rdi_True
  hdr_rdi_def hdr_wri_def e_type_def e_machine_def e_phoff_def e_shoff_def e_phentsize_def
  e_phnum_def e_shentsize_def e_shnum_def e_shstrndx_def
  set_e_phoff_def set_e_shoff_def set_e_phnum_def set_e_shstrndx_def
  u16_def u32_def u64_def usub_def s64_def builtin_mul_overflow_def builtin_add_overflow_def
  roundUp_def load_def store_def resize_bytes_def vec_resize_def vec_at_def vec_index_def
  assertE_def char_of_def bit_Suc_0_iff le_encode_numeral le_encode_1 upt_rec
  numeral_2_eq_2 [symmetric]

lemma lib_image_opens: "ElfFile lib_params lib_image = Inr lib_opened"
  unfolding ElfFile_def initial_state_def lib_params_def lib_image_def lib_opened_def
  by (simp add: eval_defs table_out_of_bounds_def checkPointer_def copy_phdr_def copy_shdr_def
      read_shstrtab_def capture_names_def getSectionName_def cong: bindE_weak_cong)

lemma lib_opened_dynstr: "getSectionIndex lib_params lib_opened ''.dynstr'' = Inr 1"
  unfolding getSectionIndex_def lib_params_def lib_opened_def lib_image_def
  by (simp add: eval_defs getSectionIndex_from.simps getSectionName_def cong: bindE_weak_cong)

lemmas run_defs =
  getSectionIndex_def getSectionIndex_from.simps getSectionName_def tryFindSectionHeader_def findSectionHeader_def
  hasReplacedSection_def canReplaceSection_def extractString_def resize_string_def replaceSection_def
  getPageSize_def sortPhdrs_def for_shnum.simps sortShdrs_def
  sync_phdrs_def sync_note_phdr_def write_section_def clobber_section_def writeReplacedSections_def
  note_phdr_def noteWalk.simps normalizeNoteSegments_def
  e_phoff_raw_def write_phdr_def write_shdr_def set_d_un_def set_d_un_addr_def dyn_entry_def dynLoop.simps
  st_value_off_def st_info_off_def st_shndx_off_def rewrite_symbol_def rewrite_symtab_def rewriteHeaders_def
  int_mul_def library_pages_def phtSize_def shtSize_def relocatePht.simps replaceInFootprint.simps edits_space_def
  library_layout_def library_segment_def library_write_def rewriteSectionsLibrary_def rewriteSections_def
  zero_Phdr_def

section \<open>General lemmas\<close>

lemma foldE_invariant:
  assumes "foldE f xs s = Inr s'" and "P s"
    and "\<And>x a b. x \<in> set xs \<Longrightarrow> f x a = Inr b \<Longrightarrow> P a \<Longrightarrow> P b"
  shows "P s'"
  using assms
proof (induction xs arbitrary: s)
  case Nil
  then show ?case by simp
next
  case (Cons x xs)
  from Cons.prems(1) obtain a where a: "f x s = Inr a" and rest: "foldE f xs a = Inr s'"
    by (auto simp: bindE_eq_Inr)
  have Pa: "P a"
    using Cons.prems(3) [of x s a] a Cons.prems(2) by simp
  show ?case
  proof (rule Cons.IH [OF rest Pa])
    fix y u v
    assume "y \<in> set xs" "f y u = Inr v" "P u"
    then show "P v"
      using Cons.prems(3) [of y u v] by simp
  qed
qed

lemma foldE_each:
  assumes "foldE f xs s = Inr s'" and "P s"
    and "\<And>x a b. x \<in> set xs \<Longrightarrow> P a \<Longrightarrow> f x a = Inr b \<Longrightarrow> P b \<and> Q x"
  shows "P s' \<and> (\<forall>x\<in>set xs. Q x)"
  using assms
proof (induction xs arbitrary: s)
  case Nil
  then show ?case by simp
next
  case (Cons x xs)
  from Cons.prems(1) obtain a where a: "f x s = Inr a" and rest: "foldE f xs a = Inr s'"
    by (auto simp: bindE_eq_Inr)
  from Cons.prems(3) [of x s a] a Cons.prems(2) have Pa: "P a" and Qx: "Q x"
    by simp_all
  have "P s' \<and> (\<forall>y\<in>set xs. Q y)"
  proof (rule Cons.IH [OF rest Pa])
    fix y u v
    assume "y \<in> set xs" "P u" "f y u = Inr v"
    then show "P v \<and> Q y"
      using Cons.prems(3) [of y u v] by simp
  qed
  with Qx show ?case
    by simp
qed

lemma foldE_count:
  assumes "foldE f xs s = Inr s'"
    and "\<And>x a b. f x a = Inr b \<Longrightarrow> g b = Suc (g a)"
  shows "g s' = g s + length xs"
  using assms(1)
proof (induction xs arbitrary: s)
  case Nil
  then show ?case by simp
next
  case (Cons x xs)
  from Cons.prems obtain a where a: "f x s = Inr a" and rest: "foldE f xs a = Inr s'"
    by (auto simp: bindE_eq_Inr)
  from Cons.IH [OF rest] assms(2) [OF a] show ?case
    by simp
qed




section \<open>Looking a section up by its name\<close>

lemma getSectionIndex_from_found:
  assumes "getSectionIndex_from c st n i = Inr j" and "j \<noteq> 0"
  shows "i \<le> j \<and> j < e_shnum c st \<and> vec_at (shdrs st) j = Inr (shdrs st ! j)
         \<and> getSectionName st (shdrs st ! j) = Inr n"
  using assms
proof (induction c st n i rule: getSectionIndex_from.induct)
  case (1 c st sectionName i)
  show ?case
  proof (cases "i < e_shnum c st")
    case False
    with "1.prems" show ?thesis
      by (simp add: getSectionIndex_from.simps [of c st sectionName i])
  next
    case True
    from "1.prems"(1) True obtain shdr m where
      sh: "vec_at (shdrs st) i = Inr shdr" and nm: "getSectionName st shdr = Inr m"
      and res: "(if m = sectionName then Inr i else getSectionIndex_from c st sectionName (Suc i)) = Inr j"
      by (subst (asm) getSectionIndex_from.simps) (auto simp: bindE_eq_Inr)
    from sh have shdr: "shdr = shdrs st ! i" "i < length (shdrs st)"
      by (auto simp: vec_at_def split: if_splits)
    show ?thesis
    proof (cases "m = sectionName")
      case True
      with res have "j = i" by simp
      with True sh nm shdr \<open>i < e_shnum c st\<close> show ?thesis by simp
    next
      case False
      with res have "getSectionIndex_from c st sectionName (Suc i) = Inr j" by simp
      from "1.IH" [OF True sh nm False this "1.prems"(2)] show ?thesis by simp
    qed
  qed
qed

lemma findSectionHeader_found:
  assumes "getSectionIndex c st n = Inr i" and "i \<noteq> 0"
  shows "findSectionHeader c st n = Inr (shdrs st ! i)"
    and "getSectionName st (shdrs st ! i) = Inr n"
    and "i < length (shdrs st)"
proof -
  from getSectionIndex_from_found [OF assms(1) [unfolded getSectionIndex_def] assms(2)]
  have at: "vec_at (shdrs st) i = Inr (shdrs st ! i)"
    and nm: "getSectionName st (shdrs st ! i) = Inr n"
    by simp_all
  from at assms show "findSectionHeader c st n = Inr (shdrs st ! i)"
    by (simp add: findSectionHeader_def tryFindSectionHeader_def)
  from nm show "getSectionName st (shdrs st ! i) = Inr n" .
  from at show "i < length (shdrs st)"
    by (auto simp: vec_at_def split: if_splits)
qed

lemma getSectionIndex_from_complete:
  assumes "i \<le> k" and "k < e_shnum c st"
    and tbl: "\<forall>j\<in>{i..k}. j < length (shdrs st)
                \<and> rd4 st (sh_name (shdrs st ! j)) < length (sectionNames st)"
    and at: "getSectionName st (shdrs st ! k) = Inr n"
    and first: "\<forall>j\<in>{i..<k}. getSectionName st (shdrs st ! j) \<noteq> Inr n"
  shows "getSectionIndex_from c st n i = Inr k"
  using assms(1) tbl first
proof (induction "k - i" arbitrary: i)
  case 0
  then have "i = k"
    by simp
  with assms(2) at "0.prems"(2) show ?case
    by (subst getSectionIndex_from.simps) (simp add: vec_at_def)
next
  case (Suc d)
  then have lt: "i < k"
    by simp
  with assms(2) have shnum: "i < e_shnum c st"
    by simp
  from Suc.prems(2) lt have len: "i < length (shdrs st)"
    and off: "rd4 st (sh_name (shdrs st ! i)) < length (sectionNames st)"
    by simp_all
  from off obtain m where m: "getSectionName st (shdrs st ! i) = Inr m"
    by (simp add: getSectionName_def Let_def)
  from Suc.prems(3) lt m have neq: "m \<noteq> n"
    by auto
  have "getSectionIndex_from c st n (Suc i) = Inr k"
  proof (rule Suc.hyps(1))
    from Suc.hyps(2) show "d = k - Suc i"
      by simp
    from lt show "Suc i \<le> k"
      by simp
    from Suc.prems(2) show "\<forall>j\<in>{Suc i..k}. j < length (shdrs st)
        \<and> rd4 st (sh_name (shdrs st ! j)) < length (sectionNames st)"
      by simp
    from Suc.prems(3) show "\<forall>j\<in>{Suc i..<k}. getSectionName st (shdrs st ! j) \<noteq> Inr n"
      by simp
  qed
  with shnum len m neq show ?case
    by (subst getSectionIndex_from.simps) (simp add: vec_at_def)
qed

text \<open>
  The section that the lookup of a name yields is the first one, from index 1, that
  carries the name.
\<close>

lemma first_named_section:
  assumes i: "i \<in> {1..<e_shnum c st}"
    and at: "getSectionName st (shdrs st ! i) = Inr n"
    and tbl: "\<forall>j\<in>{1..i}. j < length (shdrs st)
                \<and> rd4 st (sh_name (shdrs st ! j)) < length (sectionNames st)"
  obtains k where "k \<in> {1..i}" and "getSectionName st (shdrs st ! k) = Inr n"
    and "\<forall>j\<in>{1..<k}. getSectionName st (shdrs st ! j) \<noteq> Inr n"
    and "getSectionIndex c st n = Inr k"
proof -
  define k where "k = (LEAST j. 1 \<le> j \<and> getSectionName st (shdrs st ! j) = Inr n)"
  from i at have ex: "1 \<le> i \<and> getSectionName st (shdrs st ! i) = Inr n"
    by simp
  from LeastI [of "\<lambda>j. 1 \<le> j \<and> getSectionName st (shdrs st ! j) = Inr n", OF ex]
  have k: "1 \<le> k" "getSectionName st (shdrs st ! k) = Inr n"
    by (simp_all add: k_def)
  from Least_le [of "\<lambda>j. 1 \<le> j \<and> getSectionName st (shdrs st ! j) = Inr n", OF ex]
  have ki: "k \<le> i"
    by (simp add: k_def)
  have first: "\<forall>j\<in>{1..<k}. getSectionName st (shdrs st ! j) \<noteq> Inr n"
  proof
    fix j assume j: "j \<in> {1..<k}"
    show "getSectionName st (shdrs st ! j) \<noteq> Inr n"
    proof
      assume "getSectionName st (shdrs st ! j) = Inr n"
      with j have "1 \<le> j \<and> getSectionName st (shdrs st ! j) = Inr n"
        by simp
      then have "k \<le> j"
        unfolding k_def by (rule Least_le)
      with j show False
        by simp
    qed
  qed
  from tbl ki have tbl': "\<forall>j\<in>{1..k}. j < length (shdrs st)
      \<and> rd4 st (sh_name (shdrs st ! j)) < length (sectionNames st)"
    by simp
  from i ki have "k < e_shnum c st"
    by simp
  from getSectionIndex_from_complete [OF k(1) this tbl' k(2) first]
  have "getSectionIndex c st n = Inr k"
    by (simp add: getSectionIndex_def)
  with k ki first show thesis
    by (intro that [of k]) simp_all
qed

section \<open>The pending edits as a sorted list\<close>

lemma map_of_rs_insert_apply:
  "map_of (rs_insert k v rs) x = (if x = k then Some v else map_of rs x)"
  by (induction rs) auto

lemma map_of_rs_insert: "map_of (rs_insert k v rs) = (map_of rs)(k \<mapsto> v)"
  by (rule ext) (simp add: map_of_rs_insert_apply)

lemma set_fst_rs_insert: "set (map fst (rs_insert k v rs)) = insert k (set (map fst rs))"
proof (induction rs)
  case Nil
  show ?case by simp
next
  case (Cons e rs)
  obtain k' v' where e: "e = (k', v')" by (cases e)
  from Cons.IH e show ?case
    by (cases "k = k'"; cases "k < k'") (simp_all add: insert_commute)
qed

lemma sorted_rs_insert:
  "sorted_wrt (<) (map fst rs) \<Longrightarrow> sorted_wrt (<) (map fst (rs_insert k v rs))"
proof (induction rs)
  case Nil
  then show ?case by simp
next
  case (Cons e rs)
  obtain k' v' where e: "e = (k', v')" by (cases e)
  from Cons.prems e have tl: "sorted_wrt (<) (map fst rs)"
    and hd: "\<forall>x\<in>set (map fst rs). k' < x"
    by simp_all
  show ?case
  proof (cases "k = k'")
    case True
    with tl hd e show ?thesis by simp
  next
    case neq: False
    show ?thesis
    proof (cases "k < k'")
      case True
      with hd have "\<forall>x\<in>set (map fst rs). k < x"
        by (meson less_trans)
      with True tl hd e neq show ?thesis by simp
    next
      case False
      with neq have lt: "k' < k" by simp
      from hd lt have "\<forall>x\<in>set (map fst (rs_insert k v rs)). k' < x"
        by (simp only: set_fst_rs_insert) simp
      with Cons.IH [OF tl] e neq False show ?thesis by simp
    qed
  qed
qed

section \<open>What the constructor establishes\<close>

lemma copy_phdr_core:
  "copy_phdr c i a = Inr b \<Longrightarrow>
   fileContents b = fileContents a \<and> replacedSections b = replacedSections a"
  by (auto simp: copy_phdr_def Let_def bindE_eq_Inr)

lemma copy_shdr_core:
  "copy_shdr c i a = Inr b \<Longrightarrow>
   fileContents b = fileContents a \<and> replacedSections b = replacedSections a"
  by (auto simp: copy_shdr_def Let_def bindE_eq_Inr)

lemma read_shstrtab_core:
  "read_shstrtab c a = Inr b \<Longrightarrow>
   fileContents b = fileContents a \<and> replacedSections b = replacedSections a"
  by (auto simp: read_shstrtab_def Let_def bindE_eq_Inr split: if_splits option.splits)

lemma capture_names_core:
  assumes "capture_names a = Inr b"
  shows "fileContents b = fileContents a \<and> replacedSections b = replacedSections a"
proof -
  let ?P = "\<lambda>s. fileContents s = fileContents a \<and> replacedSections s = replacedSections a"
  from assms show ?thesis
    unfolding capture_names_def
    by (rule foldE_invariant [where P = ?P]) (auto simp: bindE_eq_Inr)
qed

lemma ElfFile_core:
  assumes "ElfFile c b = Inr st"
  shows "fileContents st = b \<and> replacedSections st = []"
proof -
  let ?P = "\<lambda>s. fileContents s = b \<and> replacedSections s = []"
  let ?st = "initial_state b"
  from assms obtain st1 st2 st3 where
    s1: "foldE (copy_phdr c) [0..<e_phnum c ?st] ?st = Inr st1"
    and s2: "foldE (copy_shdr c) [0..<e_shnum c st1] st1 = Inr st2"
    and s3: "read_shstrtab c st2 = Inr st3"
    and s4: "capture_names st3 = Inr st"
    by (auto simp: ElfFile_def Let_def bindE_eq_Inr split: if_splits)
  have "?P ?st"
    by (simp add: initial_state_def)
  with s1 have "?P st1"
    by (rule foldE_invariant) (auto dest: copy_phdr_core)
  with s2 have "?P st2"
    by (rule foldE_invariant) (auto dest: copy_shdr_core)
  with s3 have "?P st3"
    by (auto dest: read_shstrtab_core)
  with s4 show ?thesis
    by (auto dest: capture_names_core)
qed

lemma same_file_header:
  assumes "same_file a b"
  shows "e_shnum c b = e_shnum c a" and "e_phnum c b = e_phnum c a"
  using assms by (simp_all add: same_file_def e_shnum_def e_phnum_def hdr_rdi_def)

lemma ElfFile_tables:
  assumes "ElfFile c b = Inr st"
  shows "length (phdrs st) = e_phnum c st"
    and "length (shdrs st) = e_shnum c st"
    and "\<forall>j\<in>{1..<e_shnum c st}. rd4 st (sh_name (shdrs st ! j)) < length (sectionNames st)"
proof -
  let ?st = "initial_state b"
  from assms obtain st1 st2 st3 where
    s1: "foldE (copy_phdr c) [0..<e_phnum c ?st] ?st = Inr st1"
    and s2: "foldE (copy_shdr c) [0..<e_shnum c st1] st1 = Inr st2"
    and s3: "read_shstrtab c st2 = Inr st3"
    and s4: "capture_names st3 = Inr st"
    by (auto simp: ElfFile_def Let_def bindE_eq_Inr split: if_splits)
  have p1: "length (phdrs st1) = length (phdrs ?st) + length [0..<e_phnum c ?st]"
    using s1 by (rule foldE_count) (auto simp: copy_phdr_def Let_def bindE_eq_Inr)
  from s1 have f1: "same_file ?st st1 \<and> shdrs st1 = []"
    by (rule foldE_invariant)
      (auto simp: same_file_def initial_state_def copy_phdr_def Let_def bindE_eq_Inr)
  have p2: "length (shdrs st2) = length (shdrs st1) + length [0..<e_shnum c st1]"
    using s2 by (rule foldE_count) (auto simp: copy_shdr_def Let_def bindE_eq_Inr)
  from s2 have f2: "same_file st1 st2 \<and> phdrs st2 = phdrs st1"
    by (rule foldE_invariant) (auto simp: same_file_def copy_shdr_def Let_def bindE_eq_Inr)
  from s3 have f3: "same_file st2 st3 \<and> phdrs st3 = phdrs st2 \<and> shdrs st3 = shdrs st2"
    by (auto simp: same_file_def read_shstrtab_def Let_def bindE_eq_Inr
        split: if_splits option.splits)
  let ?P = "\<lambda>s. same_file st3 s \<and> phdrs s = phdrs st3 \<and> shdrs s = shdrs st3
            \<and> sectionNames s = sectionNames st3"
  let ?Q = "\<lambda>j. rd4 st3 (sh_name (shdrs st3 ! j)) < length (sectionNames st3)"
  from s4 have f4: "?P st \<and> (\<forall>j\<in>set [1..<length (shdrs st3)]. ?Q j)"
    unfolding capture_names_def
  proof (rule foldE_each)
    show "?P (st3\<lparr>sectionsByOldIndex :=
        vec_resize (sectionsByOldIndex st3) (length (shdrs st3)) []\<rparr>)"
      by (simp add: same_file_def)
  next
    fix x a d
    assume "x \<in> set [1..<length (shdrs st3)]" and "?P a"
      and "bindE (vec_at (shdrs a) x) (\<lambda>shdr. bindE (getSectionName a shdr)
             (\<lambda>n. Inr (a\<lparr>sectionsByOldIndex := (sectionsByOldIndex a)[x := n]\<rparr>))) = Inr d"
    then show "?P d \<and> ?Q x"
      by (auto simp: bindE_eq_Inr vec_at_def same_file_def getSectionName_def Let_def rd4_def
          split: if_splits)
  qed
  from f1 f2 f3 f4 have same: "same_file ?st st" "same_file st1 st"
    by (auto simp: same_file_def)
  from p1 f2 f3 f4 same_file_header(2) [OF same(1), of c]
  show "length (phdrs st) = e_phnum c st"
    by (simp add: initial_state_def)
  from p2 f1 f3 f4 same_file_header(1) [OF same(2), of c]
  show len: "length (shdrs st) = e_shnum c st"
    by simp
  from f4 len show "\<forall>j\<in>{1..<e_shnum c st}.
      rd4 st (sh_name (shdrs st ! j)) < length (sectionNames st)"
    by (simp add: same_file_def rd4_def)
qed

section \<open>What the steps of a commit leave unchanged\<close>

lemma frame_refl [simp]: "frame a a"
  by (simp add: frame_def)


lemma frame_phdrs [simp]: "frame a (b\<lparr>phdrs := x\<rparr>) = frame a b"
  by (simp add: frame_def)

lemma frame_shdrs [simp]: "frame a (b\<lparr>shdrs := x\<rparr>) = frame a b"
  by (simp add: frame_def)

lemma frame_stderr [simp]: "frame a (b\<lparr>stderr := x\<rparr>) = frame a b"
  by (simp add: frame_def)

lemma frame_store:
  "store (fileContents a) off bs = Inr fc \<Longrightarrow> frame a (a\<lparr>fileContents := fc\<rparr>)"
  by (simp add: frame_def store_length)

lemma hdr_wri_frame: "hdr_wri a off n v = Inr b \<Longrightarrow> frame a b"
  by (auto simp: hdr_wri_def bindE_eq_Inr dest: frame_store)

lemma set_e_frame:
  "set_e_phoff c v a = Inr b \<Longrightarrow> frame a b"
  "set_e_shoff c v a = Inr b \<Longrightarrow> frame a b"
  "set_e_phnum c v a = Inr b \<Longrightarrow> frame a b"
  "set_e_shstrndx c v a = Inr b \<Longrightarrow> frame a b"
  by (auto simp: set_e_phoff_def set_e_shoff_def set_e_phnum_def set_e_shstrndx_def
      dest: hdr_wri_frame split: if_splits)




lemma frame_stderr_left [simp]: "frame (a\<lparr>stderr := x\<rparr>) b = frame a b"
  by (simp add: frame_def)

lemma frame_phdrs_left [simp]: "frame (a\<lparr>phdrs := x\<rparr>) b = frame a b"
  by (simp add: frame_def)

lemma frame_shdrs_left [simp]: "frame (a\<lparr>shdrs := x\<rparr>) b = frame a b"
  by (simp add: frame_def)













lemma normalizeNoteSegments_frame:
  assumes "normalizeNoteSegments c a = Some (Inr b)"
  shows "frame a b"
  using assms unfolding normalizeNoteSegments_def
  by (auto split: sum.splits if_splits option.splits dest!: set_e_frame(3))



section \<open>The layout of the library strategy\<close>

lemma replaceSection_only_edits:
  "replaceSection c a n k = Inr b \<Longrightarrow> b = a\<lparr>replacedSections := replacedSections b\<rparr>"
  by (auto simp: replaceSection_def bindE_eq_Inr)

lemma replaceInFootprint_only_edits:
  "replaceInFootprint c phtSz i a = Inr b \<Longrightarrow> b = a\<lparr>replacedSections := replacedSections b\<rparr>"
proof (induction c phtSz i a rule: replaceInFootprint.induct)
  case (1 c phtSz i st)
  show ?case
  proof (cases "i < e_shnum c st \<and> s64 (rdW c st (sh_offset (shdrs st ! i))) \<le> s64 phtSz
                \<and> i < length (shdrs st)")
    case False
    with "1.prems" show ?thesis
      by (subst (asm) replaceInFootprint.simps)
        (auto simp: bindE_eq_Inr vec_at_def split: if_splits)
  next
    case True
    then have at: "vec_at (shdrs st) i = Inr (shdrs st ! i)"
      by (simp add: vec_at_def)
    from "1.prems" True at obtain sectionName st1 where
      nm: "getSectionName st (shdrs st ! i) = Inr sectionName"
      and step: "(if \<not> hasReplacedSection st sectionName
                  then replaceSection c st sectionName (u32 (rdW c st (sh_size (shdrs st ! i))))
                  else Inr st) = Inr st1"
      and rest: "replaceInFootprint c phtSz (Suc i) st1 = Inr b"
      by (subst (asm) replaceInFootprint.simps) (auto simp: bindE_eq_Inr)
    from True have c1: "i < e_shnum c st"
      and c2: "s64 (rdW c st (sh_offset (shdrs st ! i))) \<le> s64 phtSz"
      by simp_all
    from "1.IH" [OF c1 at c2 nm step rest]
    have b: "b = st1\<lparr>replacedSections := replacedSections b\<rparr>" .
    from step have "st1 = st\<lparr>replacedSections := replacedSections st1\<rparr>"
      by (auto dest: replaceSection_only_edits split: if_splits)
    with b show ?thesis
      by (metis elf_file.update_convs(9) elf_file.surjective elf_file.select_convs(9))
  qed
qed

lemma library_layout_facts:
  assumes "library_layout c st = Inr (st1, relocate, phtSz, shtSz, neededSpace, startOffset,
             startPage, firstPage, alignStartPage)"
  shows "alignStartPage = snd (snd (library_pages c st))"
    and "phtSz = phtSize c st"
    and "shtSize c st = Inr shtSz"
    and "relocatePht c st phtSz 1 = Inr relocate"
    and "\<exists>st0. (if relocate then st0 = st else replaceInFootprint c phtSz 1 st = Inr st0)
           \<and> st0 = st\<lparr>replacedSections := replacedSections st0\<rparr>
           \<and> neededSpace = u64 (shtSz + (if relocate then phtSz else 0) + edits_space c st0)
           \<and> startOffset = roundUp (length (fileContents st)) alignStartPage mod 2 ^ wbits c
           \<and> st1 = st0\<lparr>fileContents :=
                  vec_resize (fileContents st) (u64 (startOffset + neededSpace + 1)) (CHR 0x00)\<rparr>
           \<and> u64 (startOffset + neededSpace + 1) < 2 ^ 63"
proof -
  obtain sp0 fp al where pages: "library_pages c st = (sp0, fp, al)"
    by (cases "library_pages c st")
  from assms pages obtain st0 where
    sht: "shtSize c st = Inr shtSz"
    and rel: "relocatePht c st (phtSize c st) 1 = Inr relocate"
    and foot: "(if \<not> relocate then replaceInFootprint c (phtSize c st) 1 st else Inr st) = Inr st0"
    and rs: "resize_bytes (fileContents st0)
               (u64 (roundUp (length (fileContents st0)) al mod 2 ^ wbits c
                     + u64 (shtSz + (if relocate then phtSize c st else 0) + edits_space c st0)
                     + 1))
             = Inr (fileContents st1)"
    and st1: "st1 = st0\<lparr>fileContents := fileContents st1\<rparr>"
    and vals: "phtSz = phtSize c st" "alignStartPage = al"
      "neededSpace = u64 (shtSz + (if relocate then phtSize c st else 0) + edits_space c st0)"
      "startOffset = roundUp (length (fileContents st0)) al mod 2 ^ wbits c"
    unfolding library_layout_def Let_def
    by (auto simp: bindE_eq_Inr)
  from foot have only: "st0 = st\<lparr>replacedSections := replacedSections st0\<rparr>"
    by (auto dest: replaceInFootprint_only_edits split: if_splits)
  then have fc: "fileContents st0 = fileContents st"
    by (metis elf_file.select_convs(1) elf_file.surjective elf_file.update_convs(9))
  from pages vals show "alignStartPage = snd (snd (library_pages c st))"
    by simp
  from vals show "phtSz = phtSize c st"
    by simp
  from sht show "shtSize c st = Inr shtSz" .
  from rel vals show "relocatePht c st phtSz 1 = Inr relocate"
    by simp
  from rs have lt: "u64 (startOffset + neededSpace + 1) < 2 ^ 63"
    and new: "fileContents st1
              = vec_resize (fileContents st) (u64 (startOffset + neededSpace + 1)) (CHR 0x00)"
    unfolding vals fc by (auto simp: resize_bytes_def split: if_splits)
  from foot vals have sched:
    "if relocate then st0 = st else replaceInFootprint c phtSz 1 st = Inr st0"
    by (auto split: if_splits)
  from vals have ns: "neededSpace = u64 (shtSz + (if relocate then phtSz else 0) + edits_space c st0)"
    by simp
  from vals fc have so: "startOffset = roundUp (length (fileContents st)) alignStartPage mod 2 ^ wbits c"
    by simp
  from st1 new have st1': "st1 = st0\<lparr>fileContents :=
      vec_resize (fileContents st) (u64 (startOffset + neededSpace + 1)) (CHR 0x00)\<rparr>"
    by simp
  show "\<exists>st0.
      (if relocate then st0 = st else replaceInFootprint c phtSz 1 st = Inr st0)
      \<and> st0 = st\<lparr>replacedSections := replacedSections st0\<rparr>
      \<and> neededSpace = u64 (shtSz + (if relocate then phtSz else 0) + edits_space c st0)
      \<and> startOffset = roundUp (length (fileContents st)) alignStartPage mod 2 ^ wbits c
      \<and> st1 = st0\<lparr>fileContents :=
             vec_resize (fileContents st) (u64 (startOffset + neededSpace + 1)) (CHR 0x00)\<rparr>
      \<and> u64 (startOffset + neededSpace + 1) < 2 ^ 63"
    using sched only ns so st1' lt by (intro exI [of _ st0] conjI)
qed

lemma library_layout_phdrs:
  assumes "library_layout c st = Inr (st1, rest)"
  shows "phdrs st1 = phdrs st"
proof -
  obtain relocate phtSz shtSz neededSpace startOffset startPage firstPage alignStartPage
    where "rest = (relocate, phtSz, shtSz, neededSpace, startOffset, startPage, firstPage,
                   alignStartPage)"
    by (metis prod.exhaust)
  with assms library_layout_facts(5) [of c st st1 relocate phtSz shtSz neededSpace startOffset
      startPage firstPage alignStartPage]
  obtain st0 where "st0 = st\<lparr>replacedSections := replacedSections st0\<rparr>"
    and "st1 = st0\<lparr>fileContents :=
           vec_resize (fileContents st) (u64 (startOffset + neededSpace + 1)) (CHR 0x00)\<rparr>"
    by blast
  then show ?thesis
    by (metis elf_file.select_convs(2) elf_file.surjective elf_file.update_convs(1)
        elf_file.update_convs(9))
qed

section \<open>The claims about the lookup, the edits and the constructor\<close>

text \<open>
  C8. Let the name be that of the section at an index \<open>i\<close> of the section header table
  (\<open>1 \<le> i < e_shnum\<close>), in a table whose entries up to \<open>i\<close> are held by the object and
  have their name offset within the section name table, as the constructor checks for
  every entry. Then \<open>canReplaceSection\<close> returns, and it returns true if and only if the
  name is \<open>.interp\<close> or the type of the section is not \<^verbatim>\<open>SHT_PROGBITS\<close>; the section is
  the first one that carries the name (index \<open>k\<close>, which is \<open>i\<close> when no earlier section has
  the same name).
\<close>

theorem canReplaceSection_iff:
  assumes "i \<in> {1..<e_shnum c st}"
    and "getSectionName st (shdrs st ! i) = Inr sectionName"
    and "\<forall>j\<in>{1..i}. j < length (shdrs st)
           \<and> rd4 st (sh_name (shdrs st ! j)) < length (sectionNames st)"
  shows "\<exists>k\<in>{1..i}. getSectionName st (shdrs st ! k) = Inr sectionName
           \<and> (\<forall>j\<in>{1..<k}. getSectionName st (shdrs st ! j) \<noteq> Inr sectionName)
           \<and> canReplaceSection c st sectionName =
               Inr (sectionName = ''.interp''
                    \<or> rd4 st (sh_type (shdrs st ! k)) \<noteq> SHT_PROGBITS)"
proof -
  from assms obtain k where k: "k \<in> {1..i}"
    and at: "getSectionName st (shdrs st ! k) = Inr sectionName"
    and first: "\<forall>j\<in>{1..<k}. getSectionName st (shdrs st ! j) \<noteq> Inr sectionName"
    and idx: "getSectionIndex c st sectionName = Inr k"
    by (rule first_named_section)
  from k have "k \<noteq> 0"
    by simp
  from findSectionHeader_found(1) [OF idx this]
  have "canReplaceSection c st sectionName =
          Inr (sectionName = ''.interp'' \<or> rd4 st (sh_type (shdrs st ! k)) \<noteq> SHT_PROGBITS)"
    by (simp add: canReplaceSection_def)
  with k at first show ?thesis
    by blast
qed

text \<open>
  C1. Let the name be that of a section of the table, the first that carries it (index
  \<open>i\<close>, \<open>1 \<le> i < e_shnum\<close>), in a table whose entries up to \<open>i\<close> are held by the object and
  have their name offset within the section name table. For every size \<open>n\<close>,
  \<open>replaceSection\<close> starts from the pending edit of the name if there is one and otherwise
  from the bytes of the section in the buffer, provided the range
  \<open>[sh_offset, sh_offset + sh_size)\<close> lies within the buffer; the buffer stored has exactly
  \<open>n\<close> bytes, agrees with the start on the first \<open>min (length start) n\<close> bytes and is zero
  beyond them; it becomes the entry of the name, every other entry is kept, nothing else of
  the object changes, and the names stay strictly ascending, so that a name has one entry.
\<close>

theorem replaceSection_spec:
  assumes i: "i \<in> {1..<e_shnum c st}"
    and name: "getSectionName st (shdrs st ! i) = Inr sectionName"
    and first: "\<forall>j\<in>{1..<i}. getSectionName st (shdrs st ! j) \<noteq> Inr sectionName"
    and tbl: "\<forall>j\<in>{1..i}. j < length (shdrs st)
                \<and> rd4 st (sh_name (shdrs st ! j)) < length (sectionNames st)"
    and inb: "map_of (replacedSections st) sectionName = None \<longrightarrow>
              rdW c st (sh_offset (shdrs st ! i)) + rdW c st (sh_size (shdrs st ! i))
                \<le> length (fileContents st)"
    and start: "start = (case map_of (replacedSections st) sectionName of
                  Some s \<Rightarrow> s
                | None \<Rightarrow> take (rdW c st (sh_size (shdrs st ! i)))
                            (drop (rdW c st (sh_offset (shdrs st ! i))) (fileContents st)))"
  shows "\<exists>st' buf. replaceSection c st sectionName n = Inr st'
           \<and> map_of (replacedSections st') = (map_of (replacedSections st))(sectionName \<mapsto> buf)
           \<and> length buf = n
           \<and> take (min (length start) n) buf = take (min (length start) n) start
           \<and> drop (length start) buf = replicate (n - length start) (CHR 0x00)
           \<and> st' = st\<lparr>replacedSections := replacedSections st'\<rparr>
           \<and> (sorted_wrt (<) (map fst (replacedSections st))
                \<longrightarrow> sorted_wrt (<) (map fst (replacedSections st')))"
proof -
  from i have i1: "1 \<le> i" and ishnum: "i < e_shnum c st" and nz: "i \<noteq> 0"
    by simp_all
  from getSectionIndex_from_complete [OF i1 ishnum tbl name first]
  have found: "getSectionIndex c st sectionName = Inr i"
    by (simp add: getSectionIndex_def)
  let ?buf = "resize_string start n"
  let ?st' = "st\<lparr>replacedSections := rs_insert sectionName ?buf (replacedSections st)\<rparr>"
  have src: "(case map_of (replacedSections st) sectionName of
               Some s \<Rightarrow> Inr s
             | None \<Rightarrow>
                 bindE (findSectionHeader c st sectionName) (\<lambda>shdr.
                 extractString (fileContents st) (rdW c st (sh_offset shdr)) (rdW c st (sh_size shdr))))
             = Inr start"
  proof (cases "map_of (replacedSections st) sectionName")
    case None
    with inb start findSectionHeader_found(1) [OF found nz] show ?thesis
      by (simp add: extractString_def load_def)
  next
    case (Some s)
    with start show ?thesis by simp
  qed
  then have run: "replaceSection c st sectionName n = Inr ?st'"
    by (simp add: replaceSection_def)
  have len: "length ?buf = n"
    by (simp add: resize_string_def vec_resize_def)
  have keep: "take (min (length start) n) ?buf = take (min (length start) n) start"
    by (simp add: resize_string_def vec_resize_def min_def)
  have zero: "drop (length start) ?buf = replicate (n - length start) (CHR 0x00)"
    by (simp add: resize_string_def vec_resize_def)
  from run len keep zero show ?thesis
    by (intro exI [of _ ?st'] exI [of _ ?buf]) (simp add: map_of_rs_insert sorted_rs_insert)
qed

text \<open>
  C2. When the constructor accepts the image \<open>b\<close>, the object has no pending edit and its
  buffer is \<open>b\<close>; \<open>rewriteSections\<close> without \<open>force\<close> then returns at once with the object
  as it is, so the buffer is still \<open>b\<close>, byte for byte.
\<close>

theorem open_commit_is_noop:
  assumes "ElfFile c b = Inr st"
  shows "rewriteSections c False st = Some (Inr st) \<and> fileContents st = b
         \<and> replacedSections st = []"
  using ElfFile_core [OF assms] by (simp add: rewriteSections_def)

text \<open>
  C6. Whenever the product \<open>e_phnum * e_phentsize\<close> or its sum with \<open>e_phoff\<close> does not fit
  a \<^verbatim>\<open>size_t\<close>, or the end of the program header table lies beyond the buffer, and
  likewise for the section header table, the constructor fails: no object is produced,
  and the failure is one of the structural errors raised up to the check of the table.
  The products and sums are those of the natural numbers, not wrapped ones.
\<close>

theorem ElfFile_rejects_table_out_of_bounds:
  assumes st: "st = initial_state b"
    and bad:
      "e_phnum c st * e_phentsize c st \<ge> 2 ^ 64
       \<or> e_phoff c st + e_phnum c st * e_phentsize c st \<ge> 2 ^ 64
       \<or> e_phoff c st + e_phnum c st * e_phentsize c st > length b
       \<or> e_shnum c st * e_shentsize c st \<ge> 2 ^ 64
       \<or> e_shoff c st + e_shnum c st * e_shentsize c st \<ge> 2 ^ 64
       \<or> e_shoff c st + e_shnum c st * e_shentsize c st > length b"
  shows "\<exists>msg. ElfFile c b = Inl (Error msg)
           \<and> msg \<in> {''missing ELF header'', ''not an ELF executable'', ''wrong ELF type'',
                      ''program header table out of bounds'',
                      ''no section headers. The input file is probably a statically linked, self-decompressing binary'',
                      ''section header table out of bounds''}"
proof -
  from bad have
    "table_out_of_bounds (e_phoff c st) (e_phnum c st) (e_phentsize c st) (length b)
     \<or> table_out_of_bounds (e_shoff c st) (e_shnum c st) (e_shentsize c st) (length b)"
    by (auto simp: table_out_of_bounds_def builtin_mul_overflow_def builtin_add_overflow_def)
  then show ?thesis
    unfolding ElfFile_def Let_def st [symmetric]
    by (auto simp del: insert_iff simp add: insertI1 insertI2)
qed

section \<open>The claims on the example images\<close>

lemma lib_bad_image_opens: "ElfFile lib_params lib_bad_image = Inr lib_bad_opened"
  unfolding ElfFile_def initial_state_def lib_params_def lib_bad_image_def lib_bad_opened_def
    lib_image_def lib_opened_def
  by (simp add: eval_defs table_out_of_bounds_def checkPointer_def copy_phdr_def copy_shdr_def
      read_shstrtab_def capture_names_def getSectionName_def cong: bindE_weak_cong)

lemma lib_opened_shnum: "e_shnum lib_params lib_opened = 3"
  unfolding lib_params_def lib_opened_def lib_image_def
  by (simp add: eval_defs)

lemma lib_opened_name_1: "getSectionName lib_opened (shdrs lib_opened ! 1) = Inr ''.dynstr''"
  unfolding lib_opened_def
  by (simp add: eval_defs getSectionName_def)

lemma lib_opened_table_1:
  "\<forall>j\<in>{1..1}. j < length (shdrs lib_opened)
     \<and> rd4 lib_opened (sh_name (shdrs lib_opened ! j)) < length (sectionNames lib_opened)"
  by (simp add: lib_opened_def rd4_def rdi_True)

text \<open>
  The constructor accepts the library whose \<open>.dynstr\<close> ends beyond the image: it checks the
  two header tables and the section name table only. The name \<open>.dynstr\<close> is in the table
  and has no pending edit, and \<open>replaceSection\<close> reads the section through a raw pointer
  with no check of its range: the read lies outside the buffer and no buffer is returned.
\<close>

theorem replaceSection_reads_outside:
  "ElfFile lib_params lib_bad_image = Inr lib_bad_opened
   \<and> e_shnum lib_params lib_bad_opened = 3
   \<and> getSectionName lib_bad_opened (shdrs lib_bad_opened ! 1) = Inr ''.dynstr''
   \<and> replacedSections lib_bad_opened = []
   \<and> replaceSection lib_params lib_bad_opened ''.dynstr'' 16
       = Inl (UndefinedBehaviour ''read outside the buffer'')"
proof -
  have "e_shnum lib_params lib_bad_opened = 3"
    unfolding lib_params_def lib_bad_image_def lib_bad_opened_def lib_image_def lib_opened_def
    by (simp add: eval_defs)
  moreover have "getSectionName lib_bad_opened (shdrs lib_bad_opened ! 1) = Inr ''.dynstr''"
    unfolding lib_bad_opened_def lib_opened_def
    by (simp add: eval_defs getSectionName_def)
  moreover have "replacedSections lib_bad_opened = []"
    by (simp add: lib_bad_opened_def lib_opened_def)
  moreover have "replaceSection lib_params lib_bad_opened ''.dynstr'' 16
       = Inl (UndefinedBehaviour ''read outside the buffer'')"
    unfolding lib_params_def lib_bad_image_def lib_bad_opened_def lib_image_def lib_opened_def
    by (simp add: eval_defs replaceSection_def findSectionHeader_def tryFindSectionHeader_def
        getSectionIndex_def getSectionIndex_from.simps getSectionName_def extractString_def
        cong: bindE_weak_cong)
  ultimately show ?thesis
    using lib_bad_image_opens by simp
qed

theorem canReplaceSection_iff_witness:
  "1 \<in> {1..<e_shnum lib_params lib_opened}
   \<and> getSectionName lib_opened (shdrs lib_opened ! 1) = Inr ''.dynstr''
   \<and> canReplaceSection lib_params lib_opened ''.dynstr'' = Inr True"
proof -
  have i: "1 \<in> {1..<e_shnum lib_params lib_opened}"
    by (simp add: lib_opened_shnum)
  from canReplaceSection_iff [OF i lib_opened_name_1 lib_opened_table_1]
  have "canReplaceSection lib_params lib_opened ''.dynstr'' =
          Inr (''.dynstr'' = ''.interp''
               \<or> rd4 lib_opened (sh_type (shdrs lib_opened ! 1)) \<noteq> SHT_PROGBITS)"
    by simp
  then have "canReplaceSection lib_params lib_opened ''.dynstr'' = Inr True"
    by (simp add: lib_opened_def rd4_def rdi_True SHT_PROGBITS_def)
  with i lib_opened_name_1 show ?thesis
    by simp
qed

theorem replaceSection_spec_witness:
  "1 \<in> {1..<e_shnum lib_params lib_opened}
   \<and> getSectionName lib_opened (shdrs lib_opened ! 1) = Inr ''.dynstr''
   \<and> (\<exists>st' buf. replaceSection lib_params lib_opened ''.dynstr'' 16 = Inr st'
     \<and> map_of (replacedSections st') = (map_of (replacedSections lib_opened))(''.dynstr'' \<mapsto> buf)
     \<and> length buf = 16
     \<and> take 9 buf = [CHR 0x00] @ ''liba.so'' @ [CHR 0x00]
     \<and> drop 9 buf = replicate 7 (CHR 0x00))"
proof -
  define start where "start = [CHR 0x00] @ ''liba.so'' @ [CHR 0x00]"
  have len: "length start = 9"
    by (simp add: start_def)
  have i: "1 \<in> {1..<e_shnum lib_params lib_opened}"
    by (simp add: lib_opened_shnum)
  have first: "\<forall>j\<in>{1..<1}. getSectionName lib_opened (shdrs lib_opened ! j) \<noteq> Inr ''.dynstr''"
    by simp
  have inb: "map_of (replacedSections lib_opened) ''.dynstr'' = None \<longrightarrow>
      rdW lib_params lib_opened (sh_offset (shdrs lib_opened ! 1))
      + rdW lib_params lib_opened (sh_size (shdrs lib_opened ! 1))
        \<le> length (fileContents lib_opened)"
    by (simp add: lib_opened_def lib_params_def lib_image_def rdW_def rdi_True sizeof_Off_def)
  have start: "start =
      (case map_of (replacedSections lib_opened) ''.dynstr'' of
         Some s \<Rightarrow> s
       | None \<Rightarrow> take (rdW lib_params lib_opened (sh_size (shdrs lib_opened ! 1)))
                   (drop (rdW lib_params lib_opened (sh_offset (shdrs lib_opened ! 1)))
                      (fileContents lib_opened)))"
    by (simp add: start_def lib_opened_def lib_params_def lib_image_def rdW_def rdi_True
        sizeof_Off_def)
  from replaceSection_spec [OF i lib_opened_name_1 first lib_opened_table_1 inb start, of 16]
  obtain st' buf where
    run: "replaceSection lib_params lib_opened ''.dynstr'' 16 = Inr st'"
    and entry: "map_of (replacedSections st') =
                  (map_of (replacedSections lib_opened))(''.dynstr'' \<mapsto> buf)"
    and size: "length buf = 16"
    and keep: "take (min (length start) 16) buf = take (min (length start) 16) start"
    and zero: "drop (length start) buf = replicate (16 - length start) (CHR 0x00)"
    by blast
  from keep len have "take 9 buf = start"
    by simp
  moreover from zero len have "drop 9 buf = replicate 7 (CHR 0x00)"
    by simp
  ultimately show ?thesis
    using run entry size i lib_opened_name_1 unfolding start_def by blast
qed

theorem open_commit_is_noop_witness:
  "rewriteSections lib_params False lib_opened = Some (Inr lib_opened)
   \<and> fileContents lib_opened = lib_image \<and> replacedSections lib_opened = []"
  using open_commit_is_noop [OF lib_image_opens] .

theorem ElfFile_rejects_table_out_of_bounds_witness:
  "e_phoff overflow_params (initial_state overflow_image)
     + e_phnum overflow_params (initial_state overflow_image)
       * e_phentsize overflow_params (initial_state overflow_image) \<ge> 2 ^ 64
   \<and> (\<exists>msg. ElfFile overflow_params overflow_image = Inl (Error msg)
        \<and> msg \<in> {''missing ELF header'', ''not an ELF executable'', ''wrong ELF type'',
                   ''program header table out of bounds'',
                   ''no section headers. The input file is probably a statically linked, self-decompressing binary'',
                   ''section header table out of bounds''})"
proof -
  have ovf: "e_phoff overflow_params (initial_state overflow_image)
     + e_phnum overflow_params (initial_state overflow_image)
       * e_phentsize overflow_params (initial_state overflow_image) \<ge> 2 ^ 64"
    unfolding overflow_params_def overflow_image_def initial_state_def
    by (simp add: eval_defs)
  from ElfFile_rejects_table_out_of_bounds [OF refl, of overflow_params overflow_image] ovf
  show ?thesis
    by blast
qed

section \<open>The claims about the commit\<close>


text \<open>
  C9. Take an image that the constructor accepts and whose header has \<open>e_phnum = 0\<close>, with
  any pending edits. The library strategy never succeeds on it: either it fails while it
  computes the layout and grows the buffer, or it reaches \<^verbatim>\<open>phdrs.back()\<close>, which comes
  before the test \<^verbatim>\<open>!phdrs.empty()\<close>, on the empty vector of program headers. The access is
  within the vector only if \<open>e_phnum\<close> is at least 1.
\<close>

theorem library_needs_program_header:
  assumes "ElfFile c b = Inr st" and "e_phnum c st = 0"
  shows "rewriteSectionsLibrary c (st\<lparr>replacedSections := rs\<rparr>) =
           (case library_layout c (st\<lparr>replacedSections := rs\<rparr>) of
              Inl e \<Rightarrow> Some (Inl e)
            | Inr r \<Rightarrow> Some (Inl (UndefinedBehaviour ''back() of an empty vector'')))"
proof (cases "library_layout c (st\<lparr>replacedSections := rs\<rparr>)")
  case (Inl e)
  then show ?thesis
    by (simp add: rewriteSectionsLibrary_def)
next
  case (Inr r)
  obtain st1 rest where r: "r = (st1, rest)"
    by (cases r)
  from ElfFile_tables(1) [OF assms(1)] assms(2) have "phdrs st = []"
    by simp
  with library_layout_phdrs [OF Inr [unfolded r]] have "phdrs st1 = []"
    by simp
  with Inr r show ?thesis
    by (simp add: rewriteSectionsLibrary_def library_segment_def split: prod.splits)
qed

section \<open>The commit on the example images\<close>

lemma lib0_image_opens: "ElfFile lib_params lib0_image = Inr lib0_opened"
  unfolding ElfFile_def initial_state_def lib_params_def lib0_image_def lib0_opened_def
    lib_image_def lib_opened_def
  by (simp add: eval_defs table_out_of_bounds_def checkPointer_def copy_phdr_def copy_shdr_def
      read_shstrtab_def capture_names_def getSectionName_def cong: bindE_weak_cong)


lemma nophdr_image_opens: "ElfFile lib_params nophdr_image = Inr nophdr_opened"
  unfolding ElfFile_def initial_state_def lib_params_def nophdr_image_def nophdr_opened_def
    lib_image_def lib_opened_def
  by (simp add: eval_defs table_out_of_bounds_def checkPointer_def copy_phdr_def copy_shdr_def
      read_shstrtab_def capture_names_def getSectionName_def cong: bindE_weak_cong)

lemma nophdr_phnum: "e_phnum lib_params nophdr_opened = 0"
  unfolding lib_params_def nophdr_image_def nophdr_opened_def lib_image_def lib_opened_def
  by (simp add: eval_defs)

lemma nophdr_layout: "\<exists>st1 rest. library_layout lib_params nophdr_opened = Inr (st1, False, rest)"
  unfolding lib_params_def nophdr_image_def nophdr_opened_def lib_image_def lib_opened_def
  by (simp add: eval_defs run_defs cong: bindE_weak_cong)


theorem library_needs_program_header_witness:
  "ElfFile lib_params nophdr_image = Inr nophdr_opened
   \<and> e_phnum lib_params nophdr_opened = 0
   \<and> rewriteSectionsLibrary lib_params nophdr_opened
       = Some (Inl (UndefinedBehaviour ''back() of an empty vector''))"
proof -
  from nophdr_layout obtain r where r: "library_layout lib_params nophdr_opened = Inr r"
    by blast
  from library_needs_program_header [OF nophdr_image_opens nophdr_phnum,
      of "replacedSections nophdr_opened"] r
  have "rewriteSectionsLibrary lib_params nophdr_opened
       = Some (Inl (UndefinedBehaviour ''back() of an empty vector''))"
    by simp
  with nophdr_image_opens nophdr_phnum show ?thesis
    by simp
qed

end
